theory Spec2Isabelle
  imports Main "HOL-Library.Multiset"
begin

section \<open>Card operations of the notecards application\<close>

text \<open>
  A shallow embedding of \<^verbatim>\<open>src/hooks/useCardOperations.ts\<close>: the hook
  \<^verbatim>\<open>useCardOperations(deckId)\<close> with its six operations
  (\<^verbatim>\<open>createCard\<close>, \<^verbatim>\<open>updateCard\<close>, \<^verbatim>\<open>deleteCard\<close>, \<^verbatim>\<open>reorderCards\<close>,
  \<^verbatim>\<open>moveCardUp\<close>, \<^verbatim>\<open>moveCardDown\<close>) and the two pieces of React state
  \<^verbatim>\<open>loading\<close> and \<^verbatim>\<open>error\<close>.

  Strings are lists of 8-bit characters, timestamps are natural numbers, JavaScript
  numbers that hold array indices are integers (\<^verbatim>\<open>findIndex\<close> returns \<open>-1\<close>).
\<close>

subsection \<open>Data model (\<^verbatim>\<open>src/types/index.ts\<close>)\<close>

type_synonym timestamp = nat

text \<open>The fields a card document stores; the document key is the card's id.\<close>

record CardData =
  deckId :: string
  title :: string
  body :: string
  orderIndex :: int
  createdAt :: timestamp
  updatedAt :: timestamp

text \<open>The client-side \<^verbatim>\<open>Card\<close>: the stored fields and the \<^verbatim>\<open>id\<close>.\<close>

record Card = CardData +
  card_id :: string

text \<open>A stored card document: the fields above, and a data field named \<^verbatim>\<open>id\<close> when an
  update has written one. The id of a document is its key in the collection, not a field.\<close>

record CardDoc = CardData +
  data_id :: "string option"

record DeckData =
  deck_title :: string
  deck_ownerId :: string
  deck_createdAt :: timestamp
  deck_updatedAt :: timestamp
  deck_cardCount :: "int option"

subsection \<open>Errors\<close>

datatype direction = Up | Down

text \<open>
  Every \<^verbatim>\<open>throw new Error(msg)\<close> of the hook is a constructor; a rejection of a
  storage call carries the message the storage layer gave.
\<close>

datatype error =
    Unauthenticated
  | DeckIdRequired
  | CardTitleRequired
  | CardIdRequired
  | InvalidArgument
  | InvalidMove direction
  | PersistenceError string

fun message :: "error \<Rightarrow> string" where
  "message Unauthenticated = ''User must be authenticated''"
| "message DeckIdRequired = ''Deck ID is required''"
| "message CardTitleRequired = ''Card title is required''"
| "message CardIdRequired = ''Card ID is required''"
| "message InvalidArgument = ''Card IDs are required''"
| "message (InvalidMove Up) = ''Card cannot be moved up''"
| "message (InvalidMove Down) = ''Card cannot be moved down''"
| "message (PersistenceError m) = m"

text \<open>\<^verbatim>\<open>err.message || fallback\<close>: the empty string is falsy.\<close>

definition messageOr :: "error \<Rightarrow> string \<Rightarrow> string" where
  "messageOr err fallback = (if message err = [] then fallback else message err)"

subsection \<open>The ordering computed by the move operations\<close>

text \<open>\<^verbatim>\<open>Array.prototype.findIndex\<close>: the first index whose element satisfies the
  predicate, \<open>-1\<close> when there is none.\<close>

fun findIndex :: "('a \<Rightarrow> bool) \<Rightarrow> 'a list \<Rightarrow> int" where
  "findIndex p [] = -1"
| "findIndex p (x # xs) =
     (if p x then 0
      else (let r = findIndex p xs in if r = -1 then -1 else r + 1))"

text \<open>
  Lines 222--225 and 232--241 of \<^verbatim>\<open>moveCardUp\<close>: the bounds check, the copy of
  \<^verbatim>\<open>currentCards\<close>, the swap with the card above and the list of ids handed to
  \<^verbatim>\<open>reorderCards\<close>. Both indices are in range once the check has passed.
\<close>

definition moveCardUp_order :: "string \<Rightarrow> Card list \<Rightarrow> error + string list" where
  "moveCardUp_order cardId currentCards =
     (let cardIndex = findIndex (\<lambda>card. card_id card = cardId) currentCards in
      if cardIndex \<le> 0 then Inl (InvalidMove Up)
      else
        (let newCardOrder = currentCards;
             cardToMove = newCardOrder ! nat cardIndex;
             cardAbove = newCardOrder ! nat (cardIndex - 1);
             newCardOrder = newCardOrder[nat (cardIndex - 1) := cardToMove];
             newCardOrder = newCardOrder[nat cardIndex := cardAbove]
         in Inr (map card_id newCardOrder)))"

text \<open>Lines 258--261 and 268--277 of \<^verbatim>\<open>moveCardDown\<close>.\<close>

definition moveCardDown_order :: "string \<Rightarrow> Card list \<Rightarrow> error + string list" where
  "moveCardDown_order cardId currentCards =
     (let cardIndex = findIndex (\<lambda>card. card_id card = cardId) currentCards in
      if cardIndex \<ge> int (length currentCards) - 1 \<or> cardIndex = -1
      then Inl (InvalidMove Down)
      else
        (let newCardOrder = currentCards;
             cardToMove = newCardOrder ! nat cardIndex;
             cardBelow = newCardOrder ! nat (cardIndex + 1);
             newCardOrder = newCardOrder[nat (cardIndex + 1) := cardToMove];
             newCardOrder = newCardOrder[nat cardIndex := cardBelow]
         in Inr (map card_id newCardOrder)))"

subsection \<open>The persistence collaborator\<close>

text \<open>
  The hook stores cards and decks in two Firestore collections through the Firestore
  client library, which is not part of the repository. The library is modelled by its
  documented contract: a collection is a list of (document id, fields) pairs; an update
  of a document that does not exist is rejected; the writes of a batch are applied in
  order and all together, or not at all; \<^verbatim>\<open>serverTimestamp()\<close> becomes the server's
  time of the write. What the backend does with one call is an argument of the model
  (\<open>reply\<close>): it rejects the call with a message (for any reason of its own: the
  network, the security rules, a limit on the size of a batch), or it serves it at a
  server time.
  A card or deck id is the id of a document of its collection; a reference that names
  no document (an id that is not in the collection) makes an update fail.
\<close>

record db =
  cards :: "(string \<times> CardDoc) list"
  decks :: "(string \<times> DeckData) list"

record reply =
  fault :: "string option"
  serverTime :: timestamp

text \<open>A value written to a timestamp field: the \<^verbatim>\<open>serverTimestamp()\<close> sentinel or a
  date of the client.\<close>

datatype fieldTime = ServerTimestamp | ClientDate timestamp

fun resolveTime :: "timestamp \<Rightarrow> fieldTime \<Rightarrow> timestamp" where
  "resolveTime now ServerTimestamp = now"
| "resolveTime now (ClientDate t) = t"

text \<open>The object literal given to an update: the fields it has are written, the others
  are kept.\<close>

record CardPatch =
  set_id :: "string option"
  set_deckId :: "string option"
  set_title :: "string option"
  set_body :: "string option"
  set_orderIndex :: "int option"
  set_createdAt :: "fieldTime option"
  set_updatedAt :: "fieldTime option"

record DeckPatch =
  set_cardCount :: "int option"
  set_deck_updatedAt :: "fieldTime option"

datatype dbWrite = UpdateCard string CardPatch | UpdateDeck string DeckPatch

definition applyCardPatch :: "timestamp \<Rightarrow> CardPatch \<Rightarrow> CardDoc \<Rightarrow> CardDoc" where
  "applyCardPatch now p c =
     c\<lparr>deckId := (case set_deckId p of None \<Rightarrow> deckId c | Some v \<Rightarrow> v),
       title := (case set_title p of None \<Rightarrow> title c | Some t \<Rightarrow> t),
       body := (case set_body p of None \<Rightarrow> body c | Some b \<Rightarrow> b),
       orderIndex := (case set_orderIndex p of None \<Rightarrow> orderIndex c | Some k \<Rightarrow> k),
       createdAt := (case set_createdAt p of None \<Rightarrow> createdAt c | Some v \<Rightarrow> resolveTime now v),
       updatedAt := (case set_updatedAt p of None \<Rightarrow> updatedAt c | Some v \<Rightarrow> resolveTime now v),
       data_id := (case set_id p of None \<Rightarrow> data_id c | Some v \<Rightarrow> Some v)\<rparr>"

definition applyDeckPatch :: "timestamp \<Rightarrow> DeckPatch \<Rightarrow> DeckData \<Rightarrow> DeckData" where
  "applyDeckPatch now p dk =
     dk\<lparr>deck_cardCount := (case set_cardCount p of None \<Rightarrow> deck_cardCount dk | Some n \<Rightarrow> Some n),
        deck_updatedAt :=
          (case set_deck_updatedAt p of None \<Rightarrow> deck_updatedAt dk | Some v \<Rightarrow> resolveTime now v)\<rparr>"

definition modifyDoc :: "string \<Rightarrow> ('v \<Rightarrow> 'v) \<Rightarrow> (string \<times> 'v) list \<Rightarrow> (string \<times> 'v) list" where
  "modifyDoc k f coll = map (\<lambda>(k', v). if k' = k then (k', f v) else (k', v)) coll"

fun targetExists :: "db \<Rightarrow> dbWrite \<Rightarrow> bool" where
  "targetExists d (UpdateCard k p) = (map_of (cards d) k \<noteq> None)"
| "targetExists d (UpdateDeck k p) = (map_of (decks d) k \<noteq> None)"

fun applyWrite :: "timestamp \<Rightarrow> db \<Rightarrow> dbWrite \<Rightarrow> db" where
  "applyWrite now d (UpdateCard k p) = d\<lparr>cards := modifyDoc k (applyCardPatch now p) (cards d)\<rparr>"
| "applyWrite now d (UpdateDeck k p) = d\<lparr>decks := modifyDoc k (applyDeckPatch now p) (decks d)\<rparr>"

text \<open>\<^verbatim>\<open>batch.commit()\<close> of a batch of updates.\<close>

definition commit :: "reply \<Rightarrow> dbWrite list \<Rightarrow> db \<Rightarrow> error + db" where
  "commit r batch d =
     (case fault r of
        Some m \<Rightarrow> Inl (PersistenceError m)
      | None \<Rightarrow>
          if list_all (targetExists d) batch
          then Inr (foldl (applyWrite (serverTime r)) d batch)
          else Inl (PersistenceError ''No document to update''))"

text \<open>\<^verbatim>\<open>updateDoc(ref, data)\<close>: one update on its own.\<close>

definition updateDoc :: "reply \<Rightarrow> dbWrite \<Rightarrow> db \<Rightarrow> error + db" where
  "updateDoc r w d = commit r [w] d"




subsection \<open>The hook's state and what an operation does to it\<close>

text \<open>
  \<^verbatim>\<open>const [loading, setLoading] = useState(false)\<close> and
  \<^verbatim>\<open>const [error, setError] = useState<string | null>(null)\<close>. An operation is run to
  completion; its \<open>events\<close> are its calls of the two setters and its storage calls
  (the points where it awaits the backend), in the order the code makes them.
\<close>

record hookState =
  loading :: bool
  error :: "string option"


datatype event = SetLoading bool | SetError "string option" | StorageCall



text \<open>
  Several calls of the hook in one run. JavaScript runs the code between two awaits
  without interruption, so a call gives way to another only where it awaits the backend,
  that is after a storage call of its own and until it is resumed with its next event. A
  run is a list of events, each with the call that made it.
\<close>

datatype call = FirstCall | SecondCall



text \<open>The run of two calls in which the second is made while the first awaits its
  first storage call, and resolves before the first is resumed. A first call that makes no
  storage call never gives way.\<close>

definition overlapped :: "event list \<Rightarrow> event list \<Rightarrow> (call \<times> event) list" where
  "overlapped first second =
     (if StorageCall \<in> set first
      then map (Pair FirstCall) (takeWhile (\<lambda>e. e \<noteq> StorageCall) first @ [StorageCall])
           @ map (Pair SecondCall) second
           @ map (Pair FirstCall) (tl (dropWhile (\<lambda>e. e \<noteq> StorageCall) first))
      else map (Pair FirstCall) first @ map (Pair SecondCall) second)"

record 'a outcome =
  result :: "error + 'a"
  events :: "event list"
  stored :: db

text \<open>A \<^verbatim>\<open>throw\<close> before \<^verbatim>\<open>setLoading(true)\<close>: no setter and no storage call.\<close>

definition thrown :: "error \<Rightarrow> db \<Rightarrow> 'a outcome" where
  "thrown err d = \<lparr>result = Inl err, events = [], stored = d\<rparr>"

text \<open>The \<^verbatim>\<open>catch\<close> block of an operation, after \<open>calls\<close> storage calls:
  \<^verbatim>\<open>setError(err.message || fallback); setLoading(false); throw err\<close>.\<close>

definition caught :: "event list \<Rightarrow> error \<Rightarrow> string \<Rightarrow> db \<Rightarrow> 'a outcome" where
  "caught calls err fallback d =
     \<lparr>result = Inl err,
      events = [SetLoading True, SetError None] @ calls @
               [SetError (Some (messageOr err fallback)), SetLoading False],
      stored = d\<rparr>"

text \<open>The end of a \<^verbatim>\<open>try\<close> block: \<^verbatim>\<open>setLoading(false); setError(null)\<close>.\<close>

definition resolved :: "event list \<Rightarrow> 'a \<Rightarrow> db \<Rightarrow> 'a outcome" where
  "resolved calls v d =
     \<lparr>result = Inr v,
      events = [SetLoading True, SetError None] @ calls @ [SetLoading False, SetError None],
      stored = d\<rparr>"

subsection \<open>The operations of \<^verbatim>\<open>useCardOperations(deckId)\<close>\<close>

text \<open>
  \<open>user\<close> is what \<^verbatim>\<open>useAuth()\<close> gave (\<open>None\<close> for \<^verbatim>\<open>null\<close>), \<open>dId\<close> the hook's
  \<^verbatim>\<open>deckId\<close>, each \<open>reply\<close> the backend's answer to one storage call, in the order of
  the calls.
\<close>

text \<open>\<^verbatim>\<open>String.prototype.trim\<close>, on the white space that fits an 8-bit character.\<close>

definition isWhiteSpace :: "char \<Rightarrow> bool" where
  "isWhiteSpace c = (c \<in> set [CHR 0x09, CHR 0x0A, CHR 0x0B, CHR 0x0C, CHR 0x0D, CHR 0x20, CHR 0xA0])"

definition trim :: "string \<Rightarrow> string" where
  "trim s = rev (dropWhile isWhiteSpace (rev (dropWhile isWhiteSpace s)))"

definition touchDeck :: DeckPatch where
  "touchDeck = \<lparr>set_cardCount = None, set_deck_updatedAt = Some ServerTimestamp\<rparr>"


text \<open>
  The object \<^verbatim>\<open>updates\<close> as it is at run time. Its declared type is
  \<^verbatim>\<open>Partial<Omit<Card, 'id' | 'deckId' | 'createdAt' | 'orderIndex'>>\<close>, but types are
  erased, the type checker accepts a value with more keys than the type names (a variable
  of type \<^verbatim>\<open>Card\<close>, say), and the spread of line 108 copies every key the object has.
  So the object may carry any key of \<^verbatim>\<open>Card\<close>. (A key that is not one of
  \<^verbatim>\<open>Card\<close>'s would add a data field that no operation reads; such keys are left out.)
\<close>

record CardEdit =
  edit_id :: "string option"
  edit_deckId :: "string option"
  edit_title :: "string option"
  edit_body :: "string option"
  edit_orderIndex :: "int option"
  edit_createdAt :: "timestamp option"
  edit_updatedAt :: "timestamp option"

text \<open>\<^verbatim>\<open>{...updates, updatedAt: serverTimestamp()}\<close>: every key of \<^verbatim>\<open>updates\<close> is
  copied, and the later key replaces an \<^verbatim>\<open>updatedAt\<close> of \<^verbatim>\<open>updates\<close>.\<close>

definition updateData :: "CardEdit \<Rightarrow> CardPatch" where
  "updateData updates =
     \<lparr>set_id = edit_id updates, set_deckId = edit_deckId updates,
      set_title = edit_title updates, set_body = edit_body updates,
      set_orderIndex = edit_orderIndex updates,
      set_createdAt = map_option ClientDate (edit_createdAt updates),
      set_updatedAt = Some ServerTimestamp\<rparr>"

text \<open>Lines 92--131.\<close>

definition updateCard ::
  "string option \<Rightarrow> string \<Rightarrow> reply \<Rightarrow> reply \<Rightarrow> string \<Rightarrow> CardEdit \<Rightarrow> db \<Rightarrow> unit outcome" where
  "updateCard user dId r1 r2 cardId updates d =
     (if user = None then thrown Unauthenticated d
      else if trim cardId = [] then thrown CardIdRequired d
      else
        (case updateDoc r1 (UpdateCard cardId (updateData updates)) d of
           Inl err \<Rightarrow> caught [StorageCall] err ''Failed to update card'' d
         | Inr d1 \<Rightarrow>
             (case updateDoc r2 (UpdateDeck dId touchDeck) d1 of
                Inl err \<Rightarrow> caught [StorageCall, StorageCall] err ''Failed to update card'' d1
              | Inr d2 \<Rightarrow> resolved [StorageCall, StorageCall] () d2)))"


text \<open>The object literal of lines 191--194:
  \<^verbatim>\<open>{ orderIndex: index, updatedAt: serverTimestamp() }\<close>.\<close>

definition orderPatch :: "nat \<Rightarrow> CardPatch" where
  "orderPatch index =
     \<lparr>set_id = None, set_deckId = None, set_title = None, set_body = None,
      set_orderIndex = Some (int index), set_createdAt = None,
      set_updatedAt = Some ServerTimestamp\<rparr>"

text \<open>The batch of lines 187--201: one update per id, with its index in
  \<^verbatim>\<open>cardIds\<close>, then the update of the deck.\<close>

definition reorderBatch :: "string \<Rightarrow> string list \<Rightarrow> dbWrite list" where
  "reorderBatch dId cardIds =
     map (\<lambda>(cardId, index).
            UpdateCard cardId (orderPatch index))
         (zip cardIds [0 ..< length cardIds])
     @ [UpdateDeck dId touchDeck]"

text \<open>Lines 173--215.\<close>

definition reorderCards ::
  "string option \<Rightarrow> string \<Rightarrow> reply \<Rightarrow> string list \<Rightarrow> db \<Rightarrow> unit outcome" where
  "reorderCards user dId r cardIds d =
     (if user = None then thrown Unauthenticated d
      else if length cardIds = 0 then thrown InvalidArgument d
      else
        (case commit r (reorderBatch dId cardIds) d of
           Inl err \<Rightarrow> caught [StorageCall] err ''Failed to reorder cards'' d
         | Inr d1 \<Rightarrow> resolved [StorageCall] () d1))"

text \<open>Lines 217--251. A failure of \<^verbatim>\<open>reorderCards\<close> passes through the
  \<^verbatim>\<open>catch\<close> block of \<^verbatim>\<open>moveCardUp\<close> after its own.\<close>

definition moveCardUp ::
  "string option \<Rightarrow> string \<Rightarrow> reply \<Rightarrow> string \<Rightarrow> Card list \<Rightarrow> db \<Rightarrow> unit outcome" where
  "moveCardUp user dId r cardId currentCards d =
     (if user = None then thrown Unauthenticated d
      else
        (case moveCardUp_order cardId currentCards of
           Inl err \<Rightarrow> thrown err d
         | Inr cardIds \<Rightarrow>
             (let inner = reorderCards user dId r cardIds d in
              case result inner of
                Inr u \<Rightarrow>
                  \<lparr>result = Inr (),
                   events = [SetLoading True, SetError None] @ events inner,
                   stored = stored inner\<rparr>
              | Inl err \<Rightarrow>
                  \<lparr>result = Inl err,
                   events = [SetLoading True, SetError None] @ events inner @
                            [SetError (Some (messageOr err ''Failed to move card up'')),
                             SetLoading False],
                   stored = stored inner\<rparr>)))"

text \<open>Lines 253--287.\<close>

definition moveCardDown ::
  "string option \<Rightarrow> string \<Rightarrow> reply \<Rightarrow> string \<Rightarrow> Card list \<Rightarrow> db \<Rightarrow> unit outcome" where
  "moveCardDown user dId r cardId currentCards d =
     (if user = None then thrown Unauthenticated d
      else
        (case moveCardDown_order cardId currentCards of
           Inl err \<Rightarrow> thrown err d
         | Inr cardIds \<Rightarrow>
             (let inner = reorderCards user dId r cardIds d in
              case result inner of
                Inr u \<Rightarrow>
                  \<lparr>result = Inr (),
                   events = [SetLoading True, SetError None] @ events inner,
                   stored = stored inner\<rparr>
              | Inl err \<Rightarrow>
                  \<lparr>result = Inl err,
                   events = [SetLoading True, SetError None] @ events inner @
                            [SetError (Some (messageOr err ''Failed to move card down'')),
                             SetLoading False],
                   stored = stored inner\<rparr>)))"

subsection \<open>Notions used in the statements\<close>

text \<open>The last position at which \<open>x\<close> occurs in a list, if any.\<close>

fun lastIndexOf :: "'a \<Rightarrow> 'a list \<Rightarrow> nat option" where
  "lastIndexOf x [] = None"
| "lastIndexOf x (y # ys) =
     (case lastIndexOf x ys of
        Some k \<Rightarrow> Some (Suc k)
      | None \<Rightarrow> if y = x then Some 0 else None)"

text \<open>The card updates of the reorder batch, without the update of the deck.\<close>

definition cardWrites :: "string list \<Rightarrow> dbWrite list" where
  "cardWrites cardIds =
     map (\<lambda>(cardId, index).
            UpdateCard cardId (orderPatch index))
         (zip cardIds [0 ..< length cardIds])"

text \<open>What the card updates of a batch for \<open>cardIds\<close>, applied in order at server time
  \<open>now\<close>, leave of the card document with id \<open>k\<close>.\<close>

definition reindexed :: "timestamp \<Rightarrow> string list \<Rightarrow> string \<Rightarrow> CardDoc \<Rightarrow> CardDoc" where
  "reindexed now cardIds k c =
     (case lastIndexOf k cardIds of
        None \<Rightarrow> c
      | Some j \<Rightarrow> c\<lparr>orderIndex := int j, updatedAt := now\<rparr>)"

text \<open>The \<^verbatim>\<open>orderIndex\<close> stored for a card id.\<close>

definition orderIndexOf :: "db \<Rightarrow> string \<Rightarrow> int option" where
  "orderIndexOf d k = map_option orderIndex (map_of (cards d) k)"


section \<open>Properties\<close>

subsection \<open>Finding a card in a list\<close>


lemma findIndex_range: "-1 \<le> findIndex p xs \<and> findIndex p xs < int (length xs)"
  by (induction xs) (auto simp: Let_def)

lemma findIndex_none: "(findIndex p xs = -1) = (\<forall>x \<in> set xs. \<not> p x)"
proof (induction xs)
  case Nil
  show ?case by simp
next
  case (Cons a xs)
  have "-1 \<le> findIndex p xs" using findIndex_range [of p xs] by simp
  with Cons show ?case by (auto simp: Let_def)
qed

lemma findIndex_first:
  "i < length xs \<Longrightarrow> p (xs ! i) \<Longrightarrow> (\<forall>j < i. \<not> p (xs ! j)) \<Longrightarrow> findIndex p xs = int i"
proof (induction xs arbitrary: i)
  case Nil
  then show ?case by simp
next
  case (Cons a xs)
  show ?case
  proof (cases i)
    case 0
    with Cons.prems show ?thesis by simp
  next
    case (Suc k)
    have na: "\<not> p a" using Cons.prems(3) Suc by auto
    have k: "k < length xs" "p (xs ! k)" using Cons.prems Suc by auto
    have "\<forall>j < k. \<not> p (xs ! j)"
    proof (intro allI impI)
      fix j assume "j < k"
      then have "Suc j < i" using Suc by simp
      with Cons.prems(3) have "\<not> p ((a # xs) ! Suc j)" by blast
      then show "\<not> p (xs ! j)" by simp
    qed
    with Cons.IH k have "findIndex p xs = int k" by blast
    with na Suc show ?thesis by (simp add: Let_def)
  qed
qed

lemma findIndex_distinct:
  assumes "distinct (map f xs)" "i < length xs" "f (xs ! i) = k"
  shows "findIndex (\<lambda>x. f x = k) xs = int i"
proof (rule findIndex_first)
  show "i < length xs" by fact
  show "f (xs ! i) = k" by fact
  show "\<forall>j<i. f (xs ! j) \<noteq> k"
  proof (intro allI impI)
    fix j assume "j < i"
    then have "j < length xs" "j \<noteq> i" using assms(2) by auto
    then have "map f xs ! j \<noteq> map f xs ! i"
      using assms(1,2) by (simp add: nth_eq_iff_index_eq del: nth_map)
    then show "f (xs ! j) \<noteq> k" using assms \<open>j < length xs\<close> by simp
  qed
qed

lemma moveCardUp_order_swap:
  assumes "findIndex (\<lambda>card. card_id card = cardId) cs = int i" "0 < i"
  shows "moveCardUp_order cardId cs =
           Inr ((map card_id cs)[i - 1 := map card_id cs ! i, i := map card_id cs ! (i - 1)])"
proof -
  have "i < length cs" using findIndex_range [of "\<lambda>card. card_id card = cardId" cs] assms by simp
  then show ?thesis using assms
    by (simp add: moveCardUp_order_def Let_def map_update nat_diff_distrib')
qed

lemma moveCardDown_order_swap:
  assumes "findIndex (\<lambda>card. card_id card = cardId) cs = int i" "Suc i < length cs"
  shows "moveCardDown_order cardId cs =
           Inr ((map card_id cs)[Suc i := map card_id cs ! i, i := map card_id cs ! Suc i])"
  using assms
  by (simp add: moveCardDown_order_def Let_def map_update nat_add_distrib)

lemma mset_swap_upd: "i < length xs \<Longrightarrow> j < length xs \<Longrightarrow> mset (xs[i := xs ! j, j := xs ! i]) = mset xs"
  by (simp add: mset_swap)

subsection \<open>The store after a batch of card updates\<close>


lemma lastIndexOf_snoc:
  "lastIndexOf x (ys @ [y]) = (if y = x then Some (length ys) else lastIndexOf x ys)"
  by (induction ys) (auto split: option.splits)

lemma lastIndexOf_None: "(lastIndexOf x ys = None) = (x \<notin> set ys)"
  by (induction ys) (auto split: option.splits)

lemma lastIndexOf_Some:
  "lastIndexOf x ys = Some k \<Longrightarrow> k < length ys \<and> ys ! k = x \<and> (\<forall>j. k < j \<and> j < length ys \<longrightarrow> ys ! j \<noteq> x)"
proof (induction ys arbitrary: k rule: rev_induct)
  case Nil
  then show ?case by simp
next
  case (snoc y ys)
  show ?case
  proof (cases "y = x")
    case True
    with snoc.prems have "k = length ys" by (simp add: lastIndexOf_snoc)
    with True show ?thesis by auto
  next
    case False
    with snoc.prems have "lastIndexOf x ys = Some k" by (simp add: lastIndexOf_snoc)
    from snoc.IH [OF this] False show ?thesis
      by (auto simp: nth_append less_Suc_eq)
  qed
qed

lemma lastIndexOf_distinct:
  assumes "distinct ys" "k < length ys"
  shows "lastIndexOf (ys ! k) ys = Some k"
proof -
  have "ys ! k \<in> set ys" using assms by simp
  then obtain j where j: "lastIndexOf (ys ! k) ys = Some j"
    using lastIndexOf_None [of "ys ! k" ys] by (cases "lastIndexOf (ys ! k) ys") auto
  from lastIndexOf_Some [OF j] have "j < length ys" "ys ! j = ys ! k" by auto
  with assms have "j = k" by (simp add: nth_eq_iff_index_eq)
  with j show ?thesis by simp
qed

lemma map_of_modifyDoc:
  "map_of (modifyDoc k f coll) k' = (if k' = k then map_option f (map_of coll k') else map_of coll k')"
  by (induction coll) (auto simp: modifyDoc_def)

lemma keys_modifyDoc: "map fst (modifyDoc k f coll) = map fst coll"
  by (induction coll) (auto simp: modifyDoc_def)

lemma cardWrites_snoc:
  "cardWrites (xs @ [x]) = cardWrites xs @
     [UpdateCard x (orderPatch (length xs))]"
  unfolding cardWrites_def by simp

lemma fold_cardWrites:
  "decks (foldl (applyWrite now) d (cardWrites ids)) = decks d \<and>
   map fst (cards (foldl (applyWrite now) d (cardWrites ids))) = map fst (cards d) \<and>
   (\<forall>k. map_of (cards (foldl (applyWrite now) d (cardWrites ids))) k =
          map_option (reindexed now ids k) (map_of (cards d) k))"
proof (induction ids rule: rev_induct)
  case Nil
  show ?case by (simp add: cardWrites_def reindexed_def option.map_ident)
next
  case (snoc x xs)
  then show ?case
    by (auto simp: cardWrites_snoc map_of_modifyDoc keys_modifyDoc reindexed_def
        lastIndexOf_snoc applyCardPatch_def orderPatch_def option.map_comp o_def
        split: option.splits intro!: option.map_cong)
qed

lemma reorderBatch_split: "reorderBatch dId ids = cardWrites ids @ [UpdateDeck dId touchDeck]"
  by (simp add: reorderBatch_def cardWrites_def)

lemma targets_cardWrites:
  "list_all (targetExists d) (cardWrites ids) = (\<forall>k \<in> set ids. map_of (cards d) k \<noteq> None)"
proof (induction ids rule: rev_induct)
  case Nil
  show ?case by (simp add: cardWrites_def)
next
  case (snoc x xs)
  then show ?case by (auto simp: cardWrites_snoc)
qed

subsection \<open>The move operations and their orderings\<close>


lemma findIndex_hd: "xs \<noteq> [] \<Longrightarrow> p (hd xs) \<Longrightarrow> findIndex p xs = 0"
  by (cases xs) auto

lemma findIndex_absent:
  "cardId \<notin> card_id ` set cs \<Longrightarrow> findIndex (\<lambda>card. card_id card = cardId) cs = -1"
  by (auto simp: findIndex_none)

lemma moveCardUp_order_rejects:
  "cardId \<notin> card_id ` set cs \<or> (cs \<noteq> [] \<and> card_id (hd cs) = cardId)
   \<Longrightarrow> moveCardUp_order cardId cs = Inl (InvalidMove Up)"
  by (auto simp: moveCardUp_order_def findIndex_absent findIndex_hd)

lemma moveCardUp_commits:
  "moveCardUp_order cardId cs = Inr ids \<Longrightarrow>
     result (moveCardUp (Some u) dId r cardId cs d) = result (reorderCards (Some u) dId r ids d) \<and>
     stored (moveCardUp (Some u) dId r cardId cs d) = stored (reorderCards (Some u) dId r ids d)"
  by (simp add: moveCardUp_def Let_def split: sum.splits)

lemma moveCardDown_commits:
  "moveCardDown_order cardId cs = Inr ids \<Longrightarrow>
     result (moveCardDown (Some u) dId r cardId cs d) = result (reorderCards (Some u) dId r ids d) \<and>
     stored (moveCardDown (Some u) dId r cardId cs d) = stored (reorderCards (Some u) dId r ids d)"
  by (simp add: moveCardDown_def Let_def split: sum.splits)



lemma moveCardDown_order_rejects_absent:
  "cardId \<notin> card_id ` set cs \<Longrightarrow> moveCardDown_order cardId cs = Inl (InvalidMove Down)"
  by (simp add: moveCardDown_order_def findIndex_absent)

lemma findIndex_first_card:
  "i < length cs \<Longrightarrow> card_id (cs ! i) = cardId \<Longrightarrow> (\<forall>j<i. card_id (cs ! j) \<noteq> cardId)
   \<Longrightarrow> findIndex (\<lambda>card. card_id card = cardId) cs = int i"
  by (rule findIndex_first) auto

lemma swap_nths:
  "Suc i < length xs \<Longrightarrow>
     length (xs[Suc i := xs ! i, i := xs ! Suc i]) = length xs \<and>
     (\<forall>k < length xs. k \<noteq> i \<and> k \<noteq> Suc i \<longrightarrow> xs[Suc i := xs ! i, i := xs ! Suc i] ! k = xs ! k) \<and>
     xs[Suc i := xs ! i, i := xs ! Suc i] ! i = xs ! Suc i \<and>
     xs[Suc i := xs ! i, i := xs ! Suc i] ! Suc i = xs ! i"
  by (simp add: nth_list_update)



lemma swap_back:
  assumes "0 < i" "i < length xs"
  shows "(xs[i - 1 := xs ! i, i := xs ! (i - 1)])
           [Suc (i - 1) := xs[i - 1 := xs ! i, i := xs ! (i - 1)] ! (i - 1),
            i - 1 := xs[i - 1 := xs ! i, i := xs ! (i - 1)] ! Suc (i - 1)] = xs"
  using assms by (intro nth_equalityI) (auto simp: nth_list_update)


subsection \<open>What a reorder stores\<close>


lemma reorderCards_success:
  assumes "result (reorderCards user dId r cardIds d) = Inr ()"
  shows "user \<noteq> None \<and> cardIds \<noteq> [] \<and> fault r = None \<and>
         list_all (targetExists d) (reorderBatch dId cardIds) \<and>
         stored (reorderCards user dId r cardIds d) =
           foldl (applyWrite (serverTime r)) d (reorderBatch dId cardIds)"
  using assms
  by (auto simp: reorderCards_def thrown_def caught_def resolved_def commit_def
      split: if_splits option.splits)

lemma reorderCards_failure:
  assumes "result (reorderCards user dId r cardIds d) = Inl err"
  shows "stored (reorderCards user dId r cardIds d) = d"
  using assms
  by (auto simp: reorderCards_def thrown_def caught_def resolved_def
      split: if_splits sum.splits)

lemma applyDeckPatch_touch: "applyDeckPatch now touchDeck = (\<lambda>dk. dk\<lparr>deck_updatedAt := now\<rparr>)"
  by (rule ext) (simp add: applyDeckPatch_def touchDeck_def)

lemma stored_after_batch:
  "map fst (cards (foldl (applyWrite now) d (reorderBatch dId ids))) = map fst (cards d) \<and>
   (\<forall>k. map_of (cards (foldl (applyWrite now) d (reorderBatch dId ids))) k =
          map_option (reindexed now ids k) (map_of (cards d) k)) \<and>
   (\<forall>k. map_of (decks (foldl (applyWrite now) d (reorderBatch dId ids))) k =
          (if k = dId then map_option (\<lambda>dk. dk\<lparr>deck_updatedAt := now\<rparr>) (map_of (decks d) k)
           else map_of (decks d) k))"
  using fold_cardWrites [of now d ids]
  by (simp add: reorderBatch_split map_of_modifyDoc applyDeckPatch_touch)

lemma targets_reorderBatch:
  "list_all (targetExists d) (reorderBatch dId ids) =
     ((\<forall>k \<in> set ids. map_of (cards d) k \<noteq> None) \<and> map_of (decks d) dId \<noteq> None)"
  by (simp add: reorderBatch_split targets_cardWrites)

lemma lastIndexOf_ge:
  assumes "k < length ys"
  shows "\<exists>j. lastIndexOf (ys ! k) ys = Some j \<and> k \<le> j \<and> j < length ys"
proof -
  have "ys ! k \<in> set ys" using assms by simp
  then obtain j where j: "lastIndexOf (ys ! k) ys = Some j"
    using lastIndexOf_None [of "ys ! k" ys] by (cases "lastIndexOf (ys ! k) ys") auto
  from lastIndexOf_Some [OF j] have "j < length ys"
    and later: "\<forall>i. j < i \<and> i < length ys \<longrightarrow> ys ! i \<noteq> ys ! k"
    by auto
  have "k \<le> j"
  proof (rule ccontr)
    assume "\<not> k \<le> j"
    then have "j < k" by simp
    with later assms have "ys ! k \<noteq> ys ! k" by blast
    then show False by simp
  qed
  with j \<open>j < length ys\<close> show ?thesis by blast
qed

lemma reorderCards_card:
  assumes ok: "result (reorderCards user dId r cardIds d) = Inr ()"
    and k: "k < length cardIds"
  shows "\<exists>c j. map_of (cards d) (cardIds ! k) = Some c \<and>
               lastIndexOf (cardIds ! k) cardIds = Some j \<and> k \<le> j \<and> j < length cardIds \<and>
               map_of (cards (stored (reorderCards user dId r cardIds d))) (cardIds ! k) =
                 Some (c\<lparr>orderIndex := int j, updatedAt := serverTime r\<rparr>)"
proof -
  from reorderCards_success [OF ok]
  have ex: "list_all (targetExists d) (reorderBatch dId cardIds)"
    and st: "stored (reorderCards user dId r cardIds d) =
           foldl (applyWrite (serverTime r)) d (reorderBatch dId cardIds)" by auto
  have "cardIds ! k \<in> set cardIds" using k by simp
  with ex obtain c where c: "map_of (cards d) (cardIds ! k) = Some c"
    by (auto simp: targets_reorderBatch)
  from lastIndexOf_ge [OF k] obtain j where
    j: "lastIndexOf (cardIds ! k) cardIds = Some j" "k \<le> j" "j < length cardIds" by blast
  have "map_of (cards (stored (reorderCards user dId r cardIds d))) (cardIds ! k) =
          Some (c\<lparr>orderIndex := int j, updatedAt := serverTime r\<rparr>)"
    using stored_after_batch [of "serverTime r" d dId cardIds] c j
    by (simp add: st reindexed_def)
  with c j show ?thesis by blast
qed

lemma reorderCards_deck:
  assumes ok: "result (reorderCards user dId r cardIds d) = Inr ()"
  shows "\<exists>dk. map_of (decks d) dId = Some dk \<and>
               map_of (decks (stored (reorderCards user dId r cardIds d))) dId =
                 Some (dk\<lparr>deck_updatedAt := serverTime r\<rparr>)"
proof -
  from reorderCards_success [OF ok]
  have ex: "list_all (targetExists d) (reorderBatch dId cardIds)"
    and st: "stored (reorderCards user dId r cardIds d) =
           foldl (applyWrite (serverTime r)) d (reorderBatch dId cardIds)" by auto
  from ex obtain dk where dk: "map_of (decks d) dId = Some dk"
    by (auto simp: targets_reorderBatch)
  then show ?thesis
    using stored_after_batch [of "serverTime r" d dId cardIds] by (simp add: st)
qed

lemma reorderCards_index_distinct:
  assumes ok: "result (reorderCards user dId r cardIds d) = Inr ()"
    and dist: "distinct cardIds" and k: "k < length cardIds"
  shows "orderIndexOf (stored (reorderCards user dId r cardIds d)) (cardIds ! k) = Some (int k)"
proof -
  from reorderCards_card [OF ok k] lastIndexOf_distinct [OF dist k]
  show ?thesis by (auto simp: orderIndexOf_def)
qed


text \<open>A reorder leaves the store as it was, or as the whole batch makes it.\<close>

lemma reorderCards_all_or_nothing:
  "(\<exists>err. result (reorderCards user dId r cardIds d) = Inl err \<and>
          stored (reorderCards user dId r cardIds d) = d)
   \<or> (result (reorderCards user dId r cardIds d) = Inr () \<and>
       stored (reorderCards user dId r cardIds d) =
         foldl (applyWrite (serverTime r)) d (reorderBatch dId cardIds))"
proof (cases "result (reorderCards user dId r cardIds d)")
  case (Inl err)
  with reorderCards_failure [OF Inl] show ?thesis by simp
next
  case (Inr u)
  then have "result (reorderCards user dId r cardIds d) = Inr ()" by simp
  from reorderCards_success [OF this] this show ?thesis by simp
qed



lemmas run_defs = reorderCards_def thrown_def caught_def resolved_def commit_def reorderBatch_def
  orderPatch_def
  touchDeck_def modifyDoc_def applyCardPatch_def applyDeckPatch_def orderIndexOf_def


subsection \<open>Failures of the move operations\<close>


lemma moveCardDown_order_rejects_last:
  assumes "cs \<noteq> []" "card_id (last cs) = cardId" "cardId \<notin> card_id ` set (butlast cs)"
  shows "moveCardDown_order cardId cs = Inl (InvalidMove Down)"
proof -
  let ?i = "length cs - 1"
  have i: "?i < length cs" using assms(1) by simp
  have at: "card_id (cs ! ?i) = cardId" using assms(1,2) by (simp add: last_conv_nth)
  have before: "\<forall>j < ?i. card_id (cs ! j) \<noteq> cardId"
  proof (intro allI impI)
    fix j assume j: "j < ?i"
    then have "butlast cs ! j \<in> set (butlast cs)" by simp
    moreover have "butlast cs ! j = cs ! j" using j by (simp add: nth_butlast)
    ultimately show "card_id (cs ! j) \<noteq> cardId" using assms(3) by force
  qed
  have "findIndex (\<lambda>card. card_id card = cardId) cs = int ?i"
    using i at before by (rule findIndex_first_card)
  moreover have "int ?i = int (length cs) - 1"
    using assms(1) by (cases cs) auto
  ultimately show ?thesis by (simp add: moveCardDown_order_def Let_def)
qed


subsection \<open>Runs of calls, the busy flag and the card edit\<close>


lemma overlapped_keeps_first:
  "map snd (filter (\<lambda>(c, e). c = FirstCall) (overlapped xs ys)) = xs"
proof -
  have "takeWhile (\<lambda>e. e \<noteq> StorageCall) xs @ [StorageCall] @ tl (dropWhile (\<lambda>e. e \<noteq> StorageCall) xs) = xs"
    if "StorageCall \<in> set xs"
  proof -
    from that have "dropWhile (\<lambda>e. e \<noteq> StorageCall) xs \<noteq> []" by (simp add: dropWhile_eq_Nil_conv)
    moreover have "hd (dropWhile (\<lambda>e. e \<noteq> StorageCall) xs) = StorageCall"
      using hd_dropWhile [OF calculation] by simp
    ultimately have "dropWhile (\<lambda>e. e \<noteq> StorageCall) xs = StorageCall # tl (dropWhile (\<lambda>e. e \<noteq> StorageCall) xs)"
      by (metis list.collapse)
    then show ?thesis by (metis append_Cons append_Nil takeWhile_dropWhile_id)
  qed
  then show ?thesis
    by (auto simp: overlapped_def filter_map o_def)
qed

lemma overlapped_keeps_second:
  "map snd (filter (\<lambda>(c, e). c = SecondCall) (overlapped xs ys)) = ys"
  by (auto simp: overlapped_def filter_map o_def)













lemma updateDoc_card:
  "updateDoc r (UpdateCard k p) d = Inr d1 \<Longrightarrow>
     cards d1 = modifyDoc k (applyCardPatch (serverTime r) p) (cards d)"
  by (auto simp: updateDoc_def commit_def split: option.splits if_splits)

lemma updateDoc_deck:
  "updateDoc r (UpdateDeck k p) d = Inr d1 \<Longrightarrow> cards d1 = cards d"
  by (auto simp: updateDoc_def commit_def split: option.splits if_splits)

lemma updateCard_cards:
  "cards (stored (updateCard user dId r1 r2 cardId updates d)) = cards d \<or>
   cards (stored (updateCard user dId r1 r2 cardId updates d)) =
     modifyDoc cardId (applyCardPatch (serverTime r1) (updateData updates)) (cards d)"
proof (cases "updateDoc r1 (UpdateCard cardId (updateData updates)) d")
  case (Inl err)
  then show ?thesis
    by (simp add: updateCard_def thrown_def caught_def)
next
  case (Inr d1)
  note c1 = updateDoc_card [OF Inr]
  show ?thesis
  proof (cases "updateDoc r2 (UpdateDeck dId touchDeck) d1")
    case (Inl err)
    with Inr c1 show ?thesis
      by (simp add: updateCard_def thrown_def caught_def)
  next
    case d2: (Inr d2)
    from updateDoc_deck [OF d2] c1 Inr d2 show ?thesis
      by (simp add: updateCard_def thrown_def resolved_def)
  qed
qed

subsection \<open>Moving a card up\<close>

text \<open>
  Claim C3. For a list of at least two cards with distinct ids and a target at position
  \<open>i\<close> with \<open>1 \<le> i \<le> n - 1\<close>, moving the card up yields the ids of the input with
  positions \<open>i - 1\<close> and \<open>i\<close> exchanged: a list of the same length and the same multiset of
  ids, and it is this list that the operation commits. For a target that is the first card
  or that is not in the list, the ordering fails with \<open>InvalidMove\<close>, the operation
  makes no storage call and leaves the store as it was, and an authenticated caller
  receives \<open>InvalidMove\<close>.
\<close>

theorem moveCardUp_swaps_or_rejects:
  "(distinct (map card_id cs) \<and> 2 \<le> length cs \<and> 1 \<le> i \<and> i < length cs \<longrightarrow>
      (let ids = map card_id cs;
           swapped = ids[i - 1 := ids ! i, i := ids ! (i - 1)]
       in moveCardUp_order (card_id (cs ! i)) cs = Inr swapped
          \<and> length swapped = length ids
          \<and> mset swapped = mset ids
          \<and> (\<forall>u. result (moveCardUp (Some u) dId r (card_id (cs ! i)) cs d) =
                     result (reorderCards (Some u) dId r swapped d)
                 \<and> stored (moveCardUp (Some u) dId r (card_id (cs ! i)) cs d) =
                     stored (reorderCards (Some u) dId r swapped d))))
   \<and> (cardId \<notin> card_id ` set cs \<or> (cs \<noteq> [] \<and> card_id (hd cs) = cardId) \<longrightarrow>
        moveCardUp_order cardId cs = Inl (InvalidMove Up)
        \<and> stored (moveCardUp user dId r cardId cs d) = d
        \<and> events (moveCardUp user dId r cardId cs d) = []
        \<and> (\<forall>u. result (moveCardUp (Some u) dId r cardId cs d) = Inl (InvalidMove Up)))"
proof (intro conjI impI)
  assume a: "distinct (map card_id cs) \<and> 2 \<le> length cs \<and> 1 \<le> i \<and> i < length cs"
  define swapped where
    "swapped = (map card_id cs)[i - 1 := map card_id cs ! i, i := map card_id cs ! (i - 1)]"
  from a have fi: "findIndex (\<lambda>card. card_id card = card_id (cs ! i)) cs = int i"
    by (intro findIndex_distinct) auto
  have sw: "moveCardUp_order (card_id (cs ! i)) cs = Inr swapped"
    unfolding swapped_def using moveCardUp_order_swap [OF fi] a by simp
  have ms: "mset swapped = mset (map card_id cs)"
    unfolding swapped_def using a by (intro mset_swap_upd) auto
  have len: "length swapped = length (map card_id cs)"
    unfolding swapped_def by simp
  have "moveCardUp_order (card_id (cs ! i)) cs = Inr swapped
          \<and> length swapped = length (map card_id cs)
          \<and> mset swapped = mset (map card_id cs)
          \<and> (\<forall>u. result (moveCardUp (Some u) dId r (card_id (cs ! i)) cs d) =
                     result (reorderCards (Some u) dId r swapped d)
                 \<and> stored (moveCardUp (Some u) dId r (card_id (cs ! i)) cs d) =
                     stored (reorderCards (Some u) dId r swapped d))"
    using sw ms len moveCardUp_commits [OF sw] by blast
  then show "let ids = map card_id cs;
           swapped = ids[i - 1 := ids ! i, i := ids ! (i - 1)]
       in moveCardUp_order (card_id (cs ! i)) cs = Inr swapped
          \<and> length swapped = length ids
          \<and> mset swapped = mset ids
          \<and> (\<forall>u. result (moveCardUp (Some u) dId r (card_id (cs ! i)) cs d) =
                     result (reorderCards (Some u) dId r swapped d)
                 \<and> stored (moveCardUp (Some u) dId r (card_id (cs ! i)) cs d) =
                     stored (reorderCards (Some u) dId r swapped d))"
    unfolding Let_def swapped_def .
next
  assume r: "cardId \<notin> card_id ` set cs \<or> (cs \<noteq> [] \<and> card_id (hd cs) = cardId)"
  have rej: "moveCardUp_order cardId cs = Inl (InvalidMove Up)"
    using moveCardUp_order_rejects [OF r] .
  show "moveCardUp_order cardId cs = Inl (InvalidMove Up)" by (rule rej)
  show "stored (moveCardUp user dId r cardId cs d) = d"
    by (simp add: moveCardUp_def rej thrown_def)
  show "events (moveCardUp user dId r cardId cs d) = []"
    by (simp add: moveCardUp_def rej thrown_def)
  show "\<forall>u. result (moveCardUp (Some u) dId r cardId cs d) = Inl (InvalidMove Up)"
    by (simp add: moveCardUp_def rej thrown_def)
qed


theorem moveCardUp_swaps_or_rejects_witness:
  "moveCardUp_order ''b''
     [\<lparr>deckId = ''d'', title = ''A'', body = [], orderIndex = 0, createdAt = 1, updatedAt = 1, card_id = ''a''\<rparr>,
      \<lparr>deckId = ''d'', title = ''B'', body = [], orderIndex = 1, createdAt = 2, updatedAt = 2, card_id = ''b''\<rparr>]
     = Inr [''b'', ''a'']
   \<and> moveCardUp_order ''a''
     [\<lparr>deckId = ''d'', title = ''A'', body = [], orderIndex = 0, createdAt = 1, updatedAt = 1, card_id = ''a''\<rparr>,
      \<lparr>deckId = ''d'', title = ''B'', body = [], orderIndex = 1, createdAt = 2, updatedAt = 2, card_id = ''b''\<rparr>]
     = Inl (InvalidMove Up)
   \<and> result (moveCardUp (Some ''u'') ''d'' \<lparr>fault = None, serverTime = 9\<rparr> ''a''
     [\<lparr>deckId = ''d'', title = ''A'', body = [], orderIndex = 0, createdAt = 1, updatedAt = 1, card_id = ''a''\<rparr>,
      \<lparr>deckId = ''d'', title = ''B'', body = [], orderIndex = 1, createdAt = 2, updatedAt = 2, card_id = ''b''\<rparr>]
     \<lparr>cards = [], decks = []\<rparr>) = Inl (InvalidMove Up)"
  using moveCardUp_swaps_or_rejects [where i = 1 and cardId = "''a''" and user = "Some ''u''"
      and dId = "''d''" and r = "\<lparr>fault = None, serverTime = 9\<rparr>" and d = "\<lparr>cards = [], decks = []\<rparr>"
      and cs = "[\<lparr>deckId = ''d'', title = ''A'', body = [], orderIndex = 0, createdAt = 1, updatedAt = 1, card_id = ''a''\<rparr>,
      \<lparr>deckId = ''d'', title = ''B'', body = [], orderIndex = 1, createdAt = 2, updatedAt = 2, card_id = ''b''\<rparr>]"]
  by (simp add: Let_def)

subsection \<open>Moving a card down\<close>

text \<open>
  Claim C4. For every list of cards and every target id, moving the card down fails with
  \<open>InvalidMove\<close> when no card of the list has the id, when the list is empty and when the
  target (the first card with the id) is at the last index; for a target at position \<open>i\<close>
  with \<open>i < n - 1\<close> it yields the ids of the input with positions \<open>i\<close> and \<open>i + 1\<close>
  exchanged and every other position as it was. The operation of an authenticated
  caller fails with that \<open>InvalidMove\<close> before any storage call, and otherwise commits
  the list computed.
\<close>

theorem moveCardDown_swaps_or_rejects:
  "(cardId \<notin> card_id ` set cs \<longrightarrow> moveCardDown_order cardId cs = Inl (InvalidMove Down))
   \<and> (cs = [] \<longrightarrow> moveCardDown_order cardId cs = Inl (InvalidMove Down))
   \<and> (i < length cs \<and> card_id (cs ! i) = cardId \<and> (\<forall>j<i. card_id (cs ! j) \<noteq> cardId) \<longrightarrow>
        (if i = length cs - 1
         then moveCardDown_order cardId cs = Inl (InvalidMove Down)
         else (let ids = map card_id cs;
                   swapped = ids[Suc i := ids ! i, i := ids ! Suc i]
               in moveCardDown_order cardId cs = Inr swapped
                  \<and> length swapped = length ids
                  \<and> (\<forall>k < length ids. k \<noteq> i \<and> k \<noteq> Suc i \<longrightarrow> swapped ! k = ids ! k)
                  \<and> swapped ! i = ids ! Suc i
                  \<and> swapped ! Suc i = ids ! i)))
   \<and> (moveCardDown_order cardId cs = Inl (InvalidMove Down) \<longrightarrow>
        (\<forall>u. result (moveCardDown (Some u) dId r cardId cs d) = Inl (InvalidMove Down))
        \<and> events (moveCardDown user dId r cardId cs d) = []
        \<and> stored (moveCardDown user dId r cardId cs d) = d)
   \<and> (\<forall>ids u. moveCardDown_order cardId cs = Inr ids \<longrightarrow>
        result (moveCardDown (Some u) dId r cardId cs d) = result (reorderCards (Some u) dId r ids d)
        \<and> stored (moveCardDown (Some u) dId r cardId cs d) = stored (reorderCards (Some u) dId r ids d))"
proof (intro conjI impI allI)
  assume "cardId \<notin> card_id ` set cs"
  then show "moveCardDown_order cardId cs = Inl (InvalidMove Down)"
    by (rule moveCardDown_order_rejects_absent)
next
  assume "cs = []"
  then show "moveCardDown_order cardId cs = Inl (InvalidMove Down)"
    by (simp add: moveCardDown_order_def)
next
  assume a: "i < length cs \<and> card_id (cs ! i) = cardId \<and> (\<forall>j<i. card_id (cs ! j) \<noteq> cardId)"
  then have fi: "findIndex (\<lambda>card. card_id card = cardId) cs = int i"
    by (intro findIndex_first_card) auto
  show "if i = length cs - 1
         then moveCardDown_order cardId cs = Inl (InvalidMove Down)
         else (let ids = map card_id cs;
                   swapped = ids[Suc i := ids ! i, i := ids ! Suc i]
               in moveCardDown_order cardId cs = Inr swapped
                  \<and> length swapped = length ids
                  \<and> (\<forall>k < length ids. k \<noteq> i \<and> k \<noteq> Suc i \<longrightarrow> swapped ! k = ids ! k)
                  \<and> swapped ! i = ids ! Suc i
                  \<and> swapped ! Suc i = ids ! i)"
  proof (cases "i = length cs - 1")
    case True
    with a fi have "moveCardDown_order cardId cs = Inl (InvalidMove Down)"
      by (simp add: moveCardDown_order_def of_nat_diff)
    with True show ?thesis by simp
  next
    case False
    with a have lt: "Suc i < length cs" by arith
    then have lt': "Suc i < length (map card_id cs)" by simp
    from moveCardDown_order_swap [OF fi lt] swap_nths [OF lt'] False
    show ?thesis unfolding Let_def by simp
  qed
next
  assume rej: "moveCardDown_order cardId cs = Inl (InvalidMove Down)"
  show "events (moveCardDown user dId r cardId cs d) = []"
    by (simp add: moveCardDown_def rej thrown_def)
  show "stored (moveCardDown user dId r cardId cs d) = d"
    by (simp add: moveCardDown_def rej thrown_def)
  fix u
  show "result (moveCardDown (Some u) dId r cardId cs d) = Inl (InvalidMove Down)"
    by (simp add: moveCardDown_def rej thrown_def)
next
  fix ids u
  assume ok: "moveCardDown_order cardId cs = Inr ids"
  from moveCardDown_commits [OF ok]
  show "result (moveCardDown (Some u) dId r cardId cs d) = result (reorderCards (Some u) dId r ids d)"
    and "stored (moveCardDown (Some u) dId r cardId cs d) = stored (reorderCards (Some u) dId r ids d)"
    by auto
qed

theorem moveCardDown_swaps_or_rejects_witness:
  "moveCardDown_order ''a''
     [\<lparr>deckId = ''d'', title = ''A'', body = [], orderIndex = 0, createdAt = 1, updatedAt = 1, card_id = ''a''\<rparr>,
      \<lparr>deckId = ''d'', title = ''B'', body = [], orderIndex = 1, createdAt = 2, updatedAt = 2, card_id = ''b''\<rparr>,
      \<lparr>deckId = ''d'', title = ''C'', body = [], orderIndex = 2, createdAt = 3, updatedAt = 3, card_id = ''c''\<rparr>]
     = Inr [''b'', ''a'', ''c'']
   \<and> moveCardDown_order ''z''
     [\<lparr>deckId = ''d'', title = ''A'', body = [], orderIndex = 0, createdAt = 1, updatedAt = 1, card_id = ''a''\<rparr>,
      \<lparr>deckId = ''d'', title = ''B'', body = [], orderIndex = 1, createdAt = 2, updatedAt = 2, card_id = ''b''\<rparr>,
      \<lparr>deckId = ''d'', title = ''C'', body = [], orderIndex = 2, createdAt = 3, updatedAt = 3, card_id = ''c''\<rparr>]
     = Inl (InvalidMove Down)
   \<and> moveCardDown_order ''c''
     [\<lparr>deckId = ''d'', title = ''A'', body = [], orderIndex = 0, createdAt = 1, updatedAt = 1, card_id = ''a''\<rparr>,
      \<lparr>deckId = ''d'', title = ''B'', body = [], orderIndex = 1, createdAt = 2, updatedAt = 2, card_id = ''b''\<rparr>,
      \<lparr>deckId = ''d'', title = ''C'', body = [], orderIndex = 2, createdAt = 3, updatedAt = 3, card_id = ''c''\<rparr>]
     = Inl (InvalidMove Down)
   \<and> moveCardDown_order ''a'' [] = Inl (InvalidMove Down)
   \<and> result (moveCardDown (Some ''u'') ''d'' \<lparr>fault = None, serverTime = 9\<rparr> ''z''
     [\<lparr>deckId = ''d'', title = ''A'', body = [], orderIndex = 0, createdAt = 1, updatedAt = 1, card_id = ''a''\<rparr>,
      \<lparr>deckId = ''d'', title = ''B'', body = [], orderIndex = 1, createdAt = 2, updatedAt = 2, card_id = ''b''\<rparr>,
      \<lparr>deckId = ''d'', title = ''C'', body = [], orderIndex = 2, createdAt = 3, updatedAt = 3, card_id = ''c''\<rparr>]
     \<lparr>cards = [], decks = []\<rparr>) = Inl (InvalidMove Down)
   \<and> result (moveCardDown (Some ''u'') ''d'' \<lparr>fault = None, serverTime = 9\<rparr> ''a''
     [\<lparr>deckId = ''d'', title = ''A'', body = [], orderIndex = 0, createdAt = 1, updatedAt = 1, card_id = ''a''\<rparr>,
      \<lparr>deckId = ''d'', title = ''B'', body = [], orderIndex = 1, createdAt = 2, updatedAt = 2, card_id = ''b''\<rparr>,
      \<lparr>deckId = ''d'', title = ''C'', body = [], orderIndex = 2, createdAt = 3, updatedAt = 3, card_id = ''c''\<rparr>]
     \<lparr>cards = [], decks = []\<rparr>)
     = result (reorderCards (Some ''u'') ''d'' \<lparr>fault = None, serverTime = 9\<rparr> [''b'', ''a'', ''c'']
         \<lparr>cards = [], decks = []\<rparr>)"
proof -
  let ?cs = "[\<lparr>deckId = ''d'', title = ''A'', body = [], orderIndex = 0, createdAt = 1, updatedAt = 1, card_id = ''a''\<rparr>,
      \<lparr>deckId = ''d'', title = ''B'', body = [], orderIndex = 1, createdAt = 2, updatedAt = 2, card_id = ''b''\<rparr>,
      \<lparr>deckId = ''d'', title = ''C'', body = [], orderIndex = 2, createdAt = 3, updatedAt = 3, card_id = ''c''\<rparr>]"
  have 1: "moveCardDown_order ''a'' ?cs = Inr [''b'', ''a'', ''c'']"
    using moveCardDown_swaps_or_rejects [where cardId = "''a''" and cs = ?cs and i = 0]
    by (simp add: Let_def)
  have 2: "moveCardDown_order ''z'' ?cs = Inl (InvalidMove Down)"
    using moveCardDown_swaps_or_rejects [where cardId = "''z''" and cs = ?cs and i = 0]
    by simp
  have 3: "moveCardDown_order ''c'' ?cs = Inl (InvalidMove Down)"
    using moveCardDown_swaps_or_rejects [where cardId = "''c''" and cs = ?cs and i = 2]
    by (simp add: less_Suc_eq numeral_2_eq_2)
  have 4: "moveCardDown_order ''a'' ([] :: Card list) = Inl (InvalidMove Down)"
    using moveCardDown_swaps_or_rejects [where cardId = "''a''" and cs = "[] :: Card list" and i = 0]
    by simp
  have 5: "result (moveCardDown (Some ''u'') ''d'' \<lparr>fault = None, serverTime = 9\<rparr> ''z'' ?cs
     \<lparr>cards = [], decks = []\<rparr>) = Inl (InvalidMove Down)"
    using 2 moveCardDown_swaps_or_rejects [where cardId = "''z''" and cs = ?cs and i = 0
       and dId = "''d''" and r = "\<lparr>fault = None, serverTime = 9\<rparr>" and d = "\<lparr>cards = [], decks = []\<rparr>"]
    by blast
  have 6: "result (moveCardDown (Some ''u'') ''d'' \<lparr>fault = None, serverTime = 9\<rparr> ''a'' ?cs
     \<lparr>cards = [], decks = []\<rparr>)
     = result (reorderCards (Some ''u'') ''d'' \<lparr>fault = None, serverTime = 9\<rparr> [''b'', ''a'', ''c'']
         \<lparr>cards = [], decks = []\<rparr>)"
    using 1 moveCardDown_swaps_or_rejects [where cardId = "''a''" and cs = ?cs and i = 0
       and dId = "''d''" and r = "\<lparr>fault = None, serverTime = 9\<rparr>" and d = "\<lparr>cards = [], decks = []\<rparr>"]
    by blast
  from 1 2 3 4 5 6 show ?thesis by blast
qed

subsection \<open>Moving a card up and then down\<close>

text \<open>
  Claim C8. For a list of at least two cards with distinct ids and a target at position
  \<open>i\<close> with \<open>1 \<le> i \<le> n - 1\<close>, moving the card up succeeds, and moving the same card down
  on any list of cards whose ids are in the resulting order gives back the original order of
  ids.
\<close>

theorem moveUp_then_moveDown_restores:
  assumes "distinct (map card_id cs)" "2 \<le> length cs" "1 \<le> i" "i < length cs"
  shows "\<exists>ids. moveCardUp_order (card_id (cs ! i)) cs = Inr ids \<and>
           (\<forall>cs'. map card_id cs' = ids \<longrightarrow>
                    moveCardDown_order (card_id (cs ! i)) cs' = Inr (map card_id cs))"
proof -
  define ids where "ids = map card_id cs"
  define swapped where "swapped = ids[i - 1 := ids ! i, i := ids ! (i - 1)]"
  have fi: "findIndex (\<lambda>card. card_id card = card_id (cs ! i)) cs = int i"
    using assms by (intro findIndex_distinct) auto
  have up: "moveCardUp_order (card_id (cs ! i)) cs = Inr swapped"
    unfolding swapped_def ids_def using moveCardUp_order_swap [OF fi] assms by simp
  have len: "length swapped = length cs" by (simp add: swapped_def ids_def)
  have "distinct ids" "i - 1 < length ids" "i < length ids"
    using assms by (simp_all add: ids_def)
  then have dist: "distinct swapped"
    unfolding swapped_def by (simp only: distinct_swap)
  have at: "swapped ! (i - 1) = card_id (cs ! i)"
    unfolding swapped_def ids_def using assms by (simp add: nth_list_update)
  have down: "moveCardDown_order (card_id (cs ! i)) cs' = Inr (map card_id cs)"
    if eq: "map card_id cs' = swapped" for cs'
  proof -
    have l: "length cs' = length cs" using eq len by (metis length_map)
    have d': "distinct (map card_id cs')" using eq dist by simp
    have p: "card_id (cs' ! (i - 1)) = card_id (cs ! i)"
      using at eq l assms by (metis less_imp_diff_less nth_map)
    have fi': "findIndex (\<lambda>card. card_id card = card_id (cs ! i)) cs' = int (i - 1)"
      using d' p l assms by (intro findIndex_distinct) auto
    have "Suc (i - 1) < length cs'" using l assms by simp
    from moveCardDown_order_swap [OF fi' this]
    have "moveCardDown_order (card_id (cs ! i)) cs' =
            Inr (swapped[Suc (i - 1) := swapped ! (i - 1), i - 1 := swapped ! Suc (i - 1)])"
      by (simp only: eq)
    moreover have "swapped[Suc (i - 1) := swapped ! (i - 1), i - 1 := swapped ! Suc (i - 1)] = ids"
      unfolding swapped_def using swap_back [of i ids] assms by (simp add: ids_def)
    ultimately show ?thesis by (simp add: ids_def)
  qed
  from up down show ?thesis by blast
qed

theorem moveUp_then_moveDown_restores_witness:
  "moveCardUp_order ''b''
     [\<lparr>deckId = ''d'', title = ''A'', body = [], orderIndex = 0, createdAt = 1, updatedAt = 1, card_id = ''a''\<rparr>,
      \<lparr>deckId = ''d'', title = ''B'', body = [], orderIndex = 1, createdAt = 2, updatedAt = 2, card_id = ''b''\<rparr>,
      \<lparr>deckId = ''d'', title = ''C'', body = [], orderIndex = 2, createdAt = 3, updatedAt = 3, card_id = ''c''\<rparr>]
     = Inr [''b'', ''a'', ''c'']
   \<and> moveCardDown_order ''b''
     [\<lparr>deckId = ''d'', title = ''B'', body = [], orderIndex = 0, createdAt = 2, updatedAt = 9, card_id = ''b''\<rparr>,
      \<lparr>deckId = ''d'', title = ''A'', body = [], orderIndex = 1, createdAt = 1, updatedAt = 9, card_id = ''a''\<rparr>,
      \<lparr>deckId = ''d'', title = ''C'', body = [], orderIndex = 2, createdAt = 3, updatedAt = 9, card_id = ''c''\<rparr>]
     = Inr [''a'', ''b'', ''c'']"
proof -
  let ?cs = "[\<lparr>deckId = ''d'', title = ''A'', body = [], orderIndex = 0, createdAt = 1, updatedAt = 1, card_id = ''a''\<rparr>,
      \<lparr>deckId = ''d'', title = ''B'', body = [], orderIndex = 1, createdAt = 2, updatedAt = 2, card_id = ''b''\<rparr>,
      \<lparr>deckId = ''d'', title = ''C'', body = [], orderIndex = 2, createdAt = 3, updatedAt = 3, card_id = ''c''\<rparr>]"
  let ?cs' = "[\<lparr>deckId = ''d'', title = ''B'', body = [], orderIndex = 0, createdAt = 2, updatedAt = 9, card_id = ''b''\<rparr>,
      \<lparr>deckId = ''d'', title = ''A'', body = [], orderIndex = 1, createdAt = 1, updatedAt = 9, card_id = ''a''\<rparr>,
      \<lparr>deckId = ''d'', title = ''C'', body = [], orderIndex = 2, createdAt = 3, updatedAt = 9, card_id = ''c''\<rparr>]"
  have "distinct (map card_id ?cs)" "2 \<le> length ?cs" "(1::nat) \<le> 1" "1 < length ?cs" by simp_all
  from moveUp_then_moveDown_restores [OF this]
  obtain ids where up: "moveCardUp_order ''b'' ?cs = Inr ids"
    and down: "\<forall>cs'. map card_id cs' = ids \<longrightarrow> moveCardDown_order ''b'' cs' = Inr [''a'', ''b'', ''c'']"
    by auto
  have "moveCardUp_order ''b'' ?cs = Inr [''b'', ''a'', ''c'']"
    by (simp add: moveCardUp_order_def)
  with up have ids: "ids = [''b'', ''a'', ''c'']" by simp
  have "map card_id ?cs' = ids" by (simp add: ids)
  with down have "moveCardDown_order ''b'' ?cs' = Inr [''a'', ''b'', ''c'']" by blast
  with up ids show ?thesis by blast
qed

subsection \<open>The indices a reorder assigns\<close>

text \<open>
  Claim C7. After a successful reorder over a list of \<open>n\<close> card ids without duplicates, the
  \<^verbatim>\<open>orderIndex\<close> values stored for those cards are exactly \<open>0, \<dots>, n - 1\<close>: every
  listed card has an index, no index occurs twice and none is missing.
\<close>

theorem reorderCards_indices:
  assumes ok: "result (reorderCards user dId r cardIds d) = Inr ()"
    and dist: "distinct cardIds"
  shows "orderIndexOf (stored (reorderCards user dId r cardIds d)) ` set cardIds =
           (\<lambda>k. Some (int k)) ` {0 ..< length cardIds}
         \<and> inj_on (orderIndexOf (stored (reorderCards user dId r cardIds d))) (set cardIds)"
proof
  let ?f = "orderIndexOf (stored (reorderCards user dId r cardIds d))"
  have idx: "?f (cardIds ! k) = Some (int k)" if "k < length cardIds" for k
    using reorderCards_index_distinct [OF ok dist that] .
  have "set cardIds = (\<lambda>k. cardIds ! k) ` {0 ..< length cardIds}"
    by (auto simp: set_conv_nth)
  then have "?f ` set cardIds = (\<lambda>k. ?f (cardIds ! k)) ` {0 ..< length cardIds}"
    by (simp add: image_image)
  also have "\<dots> = (\<lambda>k. Some (int k)) ` {0 ..< length cardIds}"
    by (intro image_cong) (auto simp: idx)
  finally show "?f ` set cardIds = (\<lambda>k. Some (int k)) ` {0 ..< length cardIds}" .
  show "inj_on ?f (set cardIds)"
  proof (rule inj_onI)
    fix x y assume "x \<in> set cardIds" "y \<in> set cardIds" and eq: "?f x = ?f y"
    then obtain a b where a: "a < length cardIds" "x = cardIds ! a"
      and b: "b < length cardIds" "y = cardIds ! b"
      by (auto simp: in_set_conv_nth)
    with eq idx have "a = b" by simp
    with a b show "x = y" by simp
  qed
qed

theorem reorderCards_indices_witness:
  "result (reorderCards (Some ''u'') ''d'' \<lparr>fault = None, serverTime = 9\<rparr> [''b'', ''a'']
     \<lparr>cards = [(''a'', \<lparr>deckId = ''d'', title = ''A'', body = [], orderIndex = 0, createdAt = 1, updatedAt = 1, data_id = None\<rparr>),
               (''b'', \<lparr>deckId = ''d'', title = ''B'', body = [], orderIndex = 1, createdAt = 2, updatedAt = 2, data_id = None\<rparr>)],
      decks = [(''d'', \<lparr>deck_title = ''D'', deck_ownerId = ''u'', deck_createdAt = 0, deck_updatedAt = 2,
                        deck_cardCount = Some 2\<rparr>)]\<rparr>) = Inr ()
   \<and> orderIndexOf (stored (reorderCards (Some ''u'') ''d'' \<lparr>fault = None, serverTime = 9\<rparr> [''b'', ''a'']
     \<lparr>cards = [(''a'', \<lparr>deckId = ''d'', title = ''A'', body = [], orderIndex = 0, createdAt = 1, updatedAt = 1, data_id = None\<rparr>),
               (''b'', \<lparr>deckId = ''d'', title = ''B'', body = [], orderIndex = 1, createdAt = 2, updatedAt = 2, data_id = None\<rparr>)],
      decks = [(''d'', \<lparr>deck_title = ''D'', deck_ownerId = ''u'', deck_createdAt = 0, deck_updatedAt = 2,
                        deck_cardCount = Some 2\<rparr>)]\<rparr>)) ` set [''b'', ''a'']
     = {Some 0, Some 1}"
proof -
  let ?d = "\<lparr>cards = [(''a'', \<lparr>deckId = ''d'', title = ''A'', body = [], orderIndex = 0, createdAt = 1, updatedAt = 1, data_id = None\<rparr>),
               (''b'', \<lparr>deckId = ''d'', title = ''B'', body = [], orderIndex = 1, createdAt = 2, updatedAt = 2, data_id = None\<rparr>)],
      decks = [(''d'', \<lparr>deck_title = ''D'', deck_ownerId = ''u'', deck_createdAt = 0, deck_updatedAt = 2,
                        deck_cardCount = Some 2\<rparr>)]\<rparr>"
  let ?r = "\<lparr>fault = None, serverTime = 9\<rparr>"
  have ok: "result (reorderCards (Some ''u'') ''d'' ?r [''b'', ''a''] ?d) = Inr ()"
    by (simp add: run_defs)
  have dist: "distinct [''b'', ''a'']" by simp
  have "(\<lambda>k. Some (int k)) ` {0 ..< length [''b'', ''a'']} = {Some 0, Some 1}"
    by (auto simp: atLeastLessThanSuc)
  with reorderCards_indices [OF ok dist] ok show ?thesis by simp
qed

subsection \<open>The effect of a reorder\<close>

text \<open>
  Claim C2, as amended. A reorder that succeeds was called by an authenticated user with a
  non-empty list; every card named in the list exists, and afterwards its
  \<^verbatim>\<open>orderIndex\<close> is the last position at which its id occurs in the list and its
  \<^verbatim>\<open>updatedAt\<close> is the server time of the commit, its other fields being as before.
  When the list has no duplicates the card at position \<open>k\<close> has \<^verbatim>\<open>orderIndex\<close> \<open>k\<close>, for
  every \<open>k\<close>. The deck exists and its \<^verbatim>\<open>updatedAt\<close> becomes the server time of the
  commit: it is greater than before exactly when that server time is later than the
  deck's timestamp.
\<close>

theorem reorderCards_effect:
  assumes ok: "result (reorderCards user dId r cardIds d) = Inr ()"
  shows "user \<noteq> None \<and> cardIds \<noteq> []
     \<and> (\<forall>k < length cardIds. \<exists>c j.
            map_of (cards d) (cardIds ! k) = Some c
          \<and> lastIndexOf (cardIds ! k) cardIds = Some j \<and> k \<le> j
          \<and> map_of (cards (stored (reorderCards user dId r cardIds d))) (cardIds ! k) =
              Some (c\<lparr>orderIndex := int j, updatedAt := serverTime r\<rparr>))
     \<and> (distinct cardIds \<longrightarrow>
          (\<forall>k < length cardIds. \<exists>c.
              map_of (cards d) (cardIds ! k) = Some c
            \<and> map_of (cards (stored (reorderCards user dId r cardIds d))) (cardIds ! k) =
                Some (c\<lparr>orderIndex := int k, updatedAt := serverTime r\<rparr>)))
     \<and> (\<exists>dk dk'.
            map_of (decks d) dId = Some dk
          \<and> map_of (decks (stored (reorderCards user dId r cardIds d))) dId = Some dk'
          \<and> dk' = dk\<lparr>deck_updatedAt := serverTime r\<rparr>
          \<and> (deck_updatedAt dk < deck_updatedAt dk') = (deck_updatedAt dk < serverTime r))"
proof (intro conjI)
  from reorderCards_success [OF ok] show "user \<noteq> None" and "cardIds \<noteq> []" by auto
  show "\<forall>k < length cardIds. \<exists>c j.
            map_of (cards d) (cardIds ! k) = Some c
          \<and> lastIndexOf (cardIds ! k) cardIds = Some j \<and> k \<le> j
          \<and> map_of (cards (stored (reorderCards user dId r cardIds d))) (cardIds ! k) =
              Some (c\<lparr>orderIndex := int j, updatedAt := serverTime r\<rparr>)"
    using reorderCards_card [OF ok] by blast
  show "distinct cardIds \<longrightarrow>
          (\<forall>k < length cardIds. \<exists>c.
              map_of (cards d) (cardIds ! k) = Some c
            \<and> map_of (cards (stored (reorderCards user dId r cardIds d))) (cardIds ! k) =
                Some (c\<lparr>orderIndex := int k, updatedAt := serverTime r\<rparr>))"
  proof (intro impI allI)
    fix k assume dist: "distinct cardIds" and k: "k < length cardIds"
    from reorderCards_card [OF ok k] lastIndexOf_distinct [OF dist k]
    show "\<exists>c. map_of (cards d) (cardIds ! k) = Some c
            \<and> map_of (cards (stored (reorderCards user dId r cardIds d))) (cardIds ! k) =
                Some (c\<lparr>orderIndex := int k, updatedAt := serverTime r\<rparr>)"
      by auto
  qed
  from reorderCards_deck [OF ok]
  show "\<exists>dk dk'.
            map_of (decks d) dId = Some dk
          \<and> map_of (decks (stored (reorderCards user dId r cardIds d))) dId = Some dk'
          \<and> dk' = dk\<lparr>deck_updatedAt := serverTime r\<rparr>
          \<and> (deck_updatedAt dk < deck_updatedAt dk') = (deck_updatedAt dk < serverTime r)"
    by auto
qed

theorem reorderCards_effect_witness:
  "map_of (cards (stored (reorderCards (Some ''u'') ''d'' \<lparr>fault = None, serverTime = 9\<rparr> [''b'', ''a'']
     \<lparr>cards = [(''a'', \<lparr>deckId = ''d'', title = ''A'', body = [], orderIndex = 0, createdAt = 1, updatedAt = 1, data_id = None\<rparr>),
               (''b'', \<lparr>deckId = ''d'', title = ''B'', body = [], orderIndex = 1, createdAt = 2, updatedAt = 2, data_id = None\<rparr>)],
      decks = [(''d'', \<lparr>deck_title = ''D'', deck_ownerId = ''u'', deck_createdAt = 0, deck_updatedAt = 2,
                        deck_cardCount = Some 2\<rparr>)]\<rparr>))) ''b''
     = Some \<lparr>deckId = ''d'', title = ''B'', body = [], orderIndex = 0, createdAt = 2, updatedAt = 9, data_id = None\<rparr>
   \<and> map_of (cards (stored (reorderCards (Some ''u'') ''d'' \<lparr>fault = None, serverTime = 9\<rparr> [''b'', ''a'']
     \<lparr>cards = [(''a'', \<lparr>deckId = ''d'', title = ''A'', body = [], orderIndex = 0, createdAt = 1, updatedAt = 1, data_id = None\<rparr>),
               (''b'', \<lparr>deckId = ''d'', title = ''B'', body = [], orderIndex = 1, createdAt = 2, updatedAt = 2, data_id = None\<rparr>)],
      decks = [(''d'', \<lparr>deck_title = ''D'', deck_ownerId = ''u'', deck_createdAt = 0, deck_updatedAt = 2,
                        deck_cardCount = Some 2\<rparr>)]\<rparr>))) ''a''
     = Some \<lparr>deckId = ''d'', title = ''A'', body = [], orderIndex = 1, createdAt = 1, updatedAt = 9, data_id = None\<rparr>
   \<and> map_of (decks (stored (reorderCards (Some ''u'') ''d'' \<lparr>fault = None, serverTime = 9\<rparr> [''b'', ''a'']
     \<lparr>cards = [(''a'', \<lparr>deckId = ''d'', title = ''A'', body = [], orderIndex = 0, createdAt = 1, updatedAt = 1, data_id = None\<rparr>),
               (''b'', \<lparr>deckId = ''d'', title = ''B'', body = [], orderIndex = 1, createdAt = 2, updatedAt = 2, data_id = None\<rparr>)],
      decks = [(''d'', \<lparr>deck_title = ''D'', deck_ownerId = ''u'', deck_createdAt = 0, deck_updatedAt = 2,
                        deck_cardCount = Some 2\<rparr>)]\<rparr>))) ''d''
     = Some \<lparr>deck_title = ''D'', deck_ownerId = ''u'', deck_createdAt = 0, deck_updatedAt = 9,
             deck_cardCount = Some 2\<rparr>"
proof -
  let ?d = "\<lparr>cards = [(''a'', \<lparr>deckId = ''d'', title = ''A'', body = [], orderIndex = 0, createdAt = 1, updatedAt = 1, data_id = None\<rparr>),
               (''b'', \<lparr>deckId = ''d'', title = ''B'', body = [], orderIndex = 1, createdAt = 2, updatedAt = 2, data_id = None\<rparr>)],
      decks = [(''d'', \<lparr>deck_title = ''D'', deck_ownerId = ''u'', deck_createdAt = 0, deck_updatedAt = 2,
                        deck_cardCount = Some 2\<rparr>)]\<rparr>"
  let ?r = "\<lparr>fault = None, serverTime = 9\<rparr>"
  let ?ids = "[''b'', ''a'']"
  have ok: "result (reorderCards (Some ''u'') ''d'' ?r ?ids ?d) = Inr ()"
    by (simp add: run_defs)
  note eff = reorderCards_effect [OF ok]
  have dist: "distinct ?ids" by simp
  from eff dist have all: "\<forall>k < length ?ids. \<exists>c.
              map_of (cards ?d) (?ids ! k) = Some c
            \<and> map_of (cards (stored (reorderCards (Some ''u'') ''d'' ?r ?ids ?d))) (?ids ! k) =
                Some (c\<lparr>orderIndex := int k, updatedAt := serverTime ?r\<rparr>)"
    by blast
  from all [rule_format, of 0] have b: "map_of (cards (stored (reorderCards (Some ''u'') ''d'' ?r ?ids ?d))) ''b''
     = Some \<lparr>deckId = ''d'', title = ''B'', body = [], orderIndex = 0, createdAt = 2, updatedAt = 9, data_id = None\<rparr>"
    by auto
  from all [rule_format, of 1] have a: "map_of (cards (stored (reorderCards (Some ''u'') ''d'' ?r ?ids ?d))) ''a''
     = Some \<lparr>deckId = ''d'', title = ''A'', body = [], orderIndex = 1, createdAt = 1, updatedAt = 9, data_id = None\<rparr>"
    by auto
  from eff have dk: "map_of (decks (stored (reorderCards (Some ''u'') ''d'' ?r ?ids ?d))) ''d''
     = Some \<lparr>deck_title = ''D'', deck_ownerId = ''u'', deck_createdAt = 0, deck_updatedAt = 9,
             deck_cardCount = Some 2\<rparr>"
    by auto
  from a b dk show ?thesis by blast
qed

text \<open>
  The claim as stated, at two inputs. With the id \<open>a\<close> at positions 0 and 1 the reorder
  succeeds and the card at position 0 is left with \<^verbatim>\<open>orderIndex\<close> 1, not 0. And the time
  the server gives a commit is the backend's: the hook does not compare it with the
  timestamps already stored. With a list without duplicates, a deck stamped 9 and a commit
  served at time 9, the reorder succeeds and the deck's timestamp is 9 as before, not
  greater.
\<close>

theorem reorderCards_duplicate_counterexample:
  "result (reorderCards (Some ''u'') ''d'' \<lparr>fault = None, serverTime = 9\<rparr> [''a'', ''a'']
     \<lparr>cards = [(''a'', \<lparr>deckId = ''d'', title = ''A'', body = [], orderIndex = 0, createdAt = 1, updatedAt = 1, data_id = None\<rparr>)],
      decks = [(''d'', \<lparr>deck_title = ''D'', deck_ownerId = ''u'', deck_createdAt = 0, deck_updatedAt = 2,
                        deck_cardCount = Some 1\<rparr>)]\<rparr>) = Inr ()
   \<and> [''a'', ''a''] ! 0 = ''a''
   \<and> orderIndexOf (stored (reorderCards (Some ''u'') ''d'' \<lparr>fault = None, serverTime = 9\<rparr> [''a'', ''a'']
     \<lparr>cards = [(''a'', \<lparr>deckId = ''d'', title = ''A'', body = [], orderIndex = 0, createdAt = 1, updatedAt = 1, data_id = None\<rparr>)],
      decks = [(''d'', \<lparr>deck_title = ''D'', deck_ownerId = ''u'', deck_createdAt = 0, deck_updatedAt = 2,
                        deck_cardCount = Some 1\<rparr>)]\<rparr>)) ''a'' = Some 1
   \<and> orderIndexOf (stored (reorderCards (Some ''u'') ''d'' \<lparr>fault = None, serverTime = 9\<rparr> [''a'', ''a'']
     \<lparr>cards = [(''a'', \<lparr>deckId = ''d'', title = ''A'', body = [], orderIndex = 0, createdAt = 1, updatedAt = 1, data_id = None\<rparr>)],
      decks = [(''d'', \<lparr>deck_title = ''D'', deck_ownerId = ''u'', deck_createdAt = 0, deck_updatedAt = 2,
                        deck_cardCount = Some 1\<rparr>)]\<rparr>)) ([''a'', ''a''] ! 0) \<noteq> Some 0
   \<and> result (reorderCards (Some ''u'') ''d'' \<lparr>fault = None, serverTime = 9\<rparr> [''a'']
     \<lparr>cards = [(''a'', \<lparr>deckId = ''d'', title = ''A'', body = [], orderIndex = 0, createdAt = 1, updatedAt = 1, data_id = None\<rparr>)],
      decks = [(''d'', \<lparr>deck_title = ''D'', deck_ownerId = ''u'', deck_createdAt = 0, deck_updatedAt = 9,
                        deck_cardCount = Some 1\<rparr>)]\<rparr>) = Inr ()
   \<and> map_option deck_updatedAt (map_of (decks (stored (reorderCards (Some ''u'') ''d'' \<lparr>fault = None, serverTime = 9\<rparr> [''a'']
     \<lparr>cards = [(''a'', \<lparr>deckId = ''d'', title = ''A'', body = [], orderIndex = 0, createdAt = 1, updatedAt = 1, data_id = None\<rparr>)],
      decks = [(''d'', \<lparr>deck_title = ''D'', deck_ownerId = ''u'', deck_createdAt = 0, deck_updatedAt = 9,
                        deck_cardCount = Some 1\<rparr>)]\<rparr>))) ''d'') = Some 9
   \<and> \<not> (9 :: nat) < 9"
  by (simp add: run_defs)

subsection \<open>The preconditions of a reorder\<close>

text \<open>
  Claim C5, as amended. Without a current user a reorder fails with \<open>Unauthenticated\<close>,
  whatever the list; with a current user and an empty list it fails with
  \<open>InvalidArgument\<close>. In both cases it makes no storage call, sets neither piece of state
  and leaves the store as it was.
\<close>

theorem reorderCards_preconditions:
  "(user = None \<longrightarrow>
      result (reorderCards user dId r cardIds d) = Inl Unauthenticated
    \<and> events (reorderCards user dId r cardIds d) = []
    \<and> stored (reorderCards user dId r cardIds d) = d)
   \<and> (user \<noteq> None \<and> cardIds = [] \<longrightarrow>
      result (reorderCards user dId r cardIds d) = Inl InvalidArgument
    \<and> events (reorderCards user dId r cardIds d) = []
    \<and> stored (reorderCards user dId r cardIds d) = d)"
  by (simp add: reorderCards_def thrown_def)

theorem reorderCards_preconditions_witness:
  "result (reorderCards None ''d'' \<lparr>fault = None, serverTime = 9\<rparr> [''a'']
     \<lparr>cards = [(''a'', \<lparr>deckId = ''d'', title = ''A'', body = [], orderIndex = 5, createdAt = 1, updatedAt = 1, data_id = None\<rparr>)],
      decks = []\<rparr>) = Inl Unauthenticated
   \<and> stored (reorderCards None ''d'' \<lparr>fault = None, serverTime = 9\<rparr> [''a'']
     \<lparr>cards = [(''a'', \<lparr>deckId = ''d'', title = ''A'', body = [], orderIndex = 5, createdAt = 1, updatedAt = 1, data_id = None\<rparr>)],
      decks = []\<rparr>)
     = \<lparr>cards = [(''a'', \<lparr>deckId = ''d'', title = ''A'', body = [], orderIndex = 5, createdAt = 1, updatedAt = 1, data_id = None\<rparr>)],
      decks = []\<rparr>
   \<and> result (reorderCards (Some ''u'') ''d'' \<lparr>fault = None, serverTime = 9\<rparr> []
     \<lparr>cards = [(''a'', \<lparr>deckId = ''d'', title = ''A'', body = [], orderIndex = 5, createdAt = 1, updatedAt = 1, data_id = None\<rparr>)],
      decks = []\<rparr>) = Inl InvalidArgument
   \<and> events (reorderCards (Some ''u'') ''d'' \<lparr>fault = None, serverTime = 9\<rparr> []
     \<lparr>cards = [(''a'', \<lparr>deckId = ''d'', title = ''A'', body = [], orderIndex = 5, createdAt = 1, updatedAt = 1, data_id = None\<rparr>)],
      decks = []\<rparr>) = []"
  using reorderCards_preconditions [where user = None and dId = "''d''" and cardIds = "[''a'']"
      and r = "\<lparr>fault = None, serverTime = 9\<rparr>"
      and d = "\<lparr>cards = [(''a'', \<lparr>deckId = ''d'', title = ''A'', body = [], orderIndex = 5, createdAt = 1, updatedAt = 1, data_id = None\<rparr>)],
      decks = []\<rparr>"]
    reorderCards_preconditions [where user = "Some ''u''" and dId = "''d''" and cardIds = "[]"
      and r = "\<lparr>fault = None, serverTime = 9\<rparr>"
      and d = "\<lparr>cards = [(''a'', \<lparr>deckId = ''d'', title = ''A'', body = [], orderIndex = 5, createdAt = 1, updatedAt = 1, data_id = None\<rparr>)],
      decks = []\<rparr>"]
  by simp

text \<open>
  The claim as stated, for every empty list: without a current user the reorder of the
  empty list fails with \<open>Unauthenticated\<close>, not with \<open>InvalidArgument\<close>.
\<close>

theorem reorderCards_empty_unauthenticated_counterexample:
  "result (reorderCards None ''d'' \<lparr>fault = None, serverTime = 9\<rparr> []
     \<lparr>cards = [], decks = []\<rparr>) = Inl Unauthenticated
   \<and> result (reorderCards None ''d'' \<lparr>fault = None, serverTime = 9\<rparr> []
     \<lparr>cards = [], decks = []\<rparr>) \<noteq> Inl InvalidArgument"
  by (simp add: reorderCards_def thrown_def)

subsection \<open>The order of the checks in the move operations\<close>

text \<open>
  Claim C6, as amended. The move operations check the user first, then compute the
  ordering, then commit. Without a current user they fail with \<open>Unauthenticated\<close>
  whatever the list and the target, and store nothing. With a current user, a target that
  is not in the list or cannot move (the first card for a move up, the last card for a
  move down) makes them fail with \<open>InvalidMove\<close> before any storage call; every failure
  of the ordering and every failure of the commit reaches the caller as it is.
\<close>

theorem move_operations_failures:
  "(user = None \<longrightarrow>
       result (moveCardUp user dId r cardId cs d) = Inl Unauthenticated
     \<and> result (moveCardDown user dId r cardId cs d) = Inl Unauthenticated
     \<and> stored (moveCardUp user dId r cardId cs d) = d
     \<and> stored (moveCardDown user dId r cardId cs d) = d)
   \<and> (user \<noteq> None \<and>
        (cardId \<notin> card_id ` set cs \<or> (cs \<noteq> [] \<and> card_id (hd cs) = cardId)) \<longrightarrow>
       result (moveCardUp user dId r cardId cs d) = Inl (InvalidMove Up)
     \<and> events (moveCardUp user dId r cardId cs d) = []
     \<and> stored (moveCardUp user dId r cardId cs d) = d)
   \<and> (user \<noteq> None \<and>
        (cardId \<notin> card_id ` set cs \<or>
         (cs \<noteq> [] \<and> card_id (last cs) = cardId \<and> cardId \<notin> card_id ` set (butlast cs))) \<longrightarrow>
       result (moveCardDown user dId r cardId cs d) = Inl (InvalidMove Down)
     \<and> events (moveCardDown user dId r cardId cs d) = []
     \<and> stored (moveCardDown user dId r cardId cs d) = d)
   \<and> (\<forall>err. user \<noteq> None \<and> moveCardUp_order cardId cs = Inl err \<longrightarrow>
       result (moveCardUp user dId r cardId cs d) = Inl err)
   \<and> (\<forall>err. user \<noteq> None \<and> moveCardDown_order cardId cs = Inl err \<longrightarrow>
       result (moveCardDown user dId r cardId cs d) = Inl err)
   \<and> (\<forall>ids err. user \<noteq> None \<and> moveCardUp_order cardId cs = Inr ids \<and>
         result (reorderCards user dId r ids d) = Inl err \<longrightarrow>
       result (moveCardUp user dId r cardId cs d) = Inl err)
   \<and> (\<forall>ids err. user \<noteq> None \<and> moveCardDown_order cardId cs = Inr ids \<and>
         result (reorderCards user dId r ids d) = Inl err \<longrightarrow>
       result (moveCardDown user dId r cardId cs d) = Inl err)"
proof (intro conjI impI allI)
  assume "user = None"
  then show "result (moveCardUp user dId r cardId cs d) = Inl Unauthenticated"
    and "result (moveCardDown user dId r cardId cs d) = Inl Unauthenticated"
    and "stored (moveCardUp user dId r cardId cs d) = d"
    and "stored (moveCardDown user dId r cardId cs d) = d"
    by (simp_all add: moveCardUp_def moveCardDown_def thrown_def)
next
  assume a: "user \<noteq> None \<and>
        (cardId \<notin> card_id ` set cs \<or> (cs \<noteq> [] \<and> card_id (hd cs) = cardId))"
  then have "moveCardUp_order cardId cs = Inl (InvalidMove Up)"
    by (intro moveCardUp_order_rejects) blast
  with a show "result (moveCardUp user dId r cardId cs d) = Inl (InvalidMove Up)"
    and "events (moveCardUp user dId r cardId cs d) = []"
    and "stored (moveCardUp user dId r cardId cs d) = d"
    by (simp_all add: moveCardUp_def thrown_def)
next
  assume a: "user \<noteq> None \<and>
        (cardId \<notin> card_id ` set cs \<or>
         (cs \<noteq> [] \<and> card_id (last cs) = cardId \<and> cardId \<notin> card_id ` set (butlast cs)))"
  then have "moveCardDown_order cardId cs = Inl (InvalidMove Down)"
    using moveCardDown_order_rejects_absent moveCardDown_order_rejects_last by blast
  with a show "result (moveCardDown user dId r cardId cs d) = Inl (InvalidMove Down)"
    and "events (moveCardDown user dId r cardId cs d) = []"
    and "stored (moveCardDown user dId r cardId cs d) = d"
    by (simp_all add: moveCardDown_def thrown_def)
next
  fix err
  assume "user \<noteq> None \<and> moveCardUp_order cardId cs = Inl err"
  then show "result (moveCardUp user dId r cardId cs d) = Inl err"
    by (auto simp: moveCardUp_def thrown_def)
next
  fix err
  assume "user \<noteq> None \<and> moveCardDown_order cardId cs = Inl err"
  then show "result (moveCardDown user dId r cardId cs d) = Inl err"
    by (auto simp: moveCardDown_def thrown_def)
next
  fix ids err
  assume "user \<noteq> None \<and> moveCardUp_order cardId cs = Inr ids \<and>
         result (reorderCards user dId r ids d) = Inl err"
  then show "result (moveCardUp user dId r cardId cs d) = Inl err"
    by (auto simp: moveCardUp_def Let_def)
next
  fix ids err
  assume "user \<noteq> None \<and> moveCardDown_order cardId cs = Inr ids \<and>
         result (reorderCards user dId r ids d) = Inl err"
  then show "result (moveCardDown user dId r cardId cs d) = Inl err"
    by (auto simp: moveCardDown_def Let_def)
qed

theorem move_operations_failures_witness:
  "result (moveCardUp None ''d'' \<lparr>fault = None, serverTime = 9\<rparr> ''b''
     [\<lparr>deckId = ''d'', title = ''A'', body = [], orderIndex = 0, createdAt = 1, updatedAt = 1, card_id = ''a''\<rparr>,
      \<lparr>deckId = ''d'', title = ''B'', body = [], orderIndex = 1, createdAt = 2, updatedAt = 2, card_id = ''b''\<rparr>]
     \<lparr>cards = [], decks = []\<rparr>) = Inl Unauthenticated
   \<and> result (moveCardUp (Some ''u'') ''d'' \<lparr>fault = None, serverTime = 9\<rparr> ''a''
     [\<lparr>deckId = ''d'', title = ''A'', body = [], orderIndex = 0, createdAt = 1, updatedAt = 1, card_id = ''a''\<rparr>,
      \<lparr>deckId = ''d'', title = ''B'', body = [], orderIndex = 1, createdAt = 2, updatedAt = 2, card_id = ''b''\<rparr>]
     \<lparr>cards = [], decks = []\<rparr>) = Inl (InvalidMove Up)
   \<and> result (moveCardDown (Some ''u'') ''d'' \<lparr>fault = None, serverTime = 9\<rparr> ''b''
     [\<lparr>deckId = ''d'', title = ''A'', body = [], orderIndex = 0, createdAt = 1, updatedAt = 1, card_id = ''a''\<rparr>,
      \<lparr>deckId = ''d'', title = ''B'', body = [], orderIndex = 1, createdAt = 2, updatedAt = 2, card_id = ''b''\<rparr>]
     \<lparr>cards = [], decks = []\<rparr>) = Inl (InvalidMove Down)
   \<and> result (moveCardUp (Some ''u'') ''d'' \<lparr>fault = Some ''unavailable'', serverTime = 9\<rparr> ''b''
     [\<lparr>deckId = ''d'', title = ''A'', body = [], orderIndex = 0, createdAt = 1, updatedAt = 1, card_id = ''a''\<rparr>,
      \<lparr>deckId = ''d'', title = ''B'', body = [], orderIndex = 1, createdAt = 2, updatedAt = 2, card_id = ''b''\<rparr>]
     \<lparr>cards = [], decks = []\<rparr>) = Inl (PersistenceError ''unavailable'')
   \<and> result (moveCardDown (Some ''u'') ''d'' \<lparr>fault = Some ''unavailable'', serverTime = 9\<rparr> ''a''
     [\<lparr>deckId = ''d'', title = ''A'', body = [], orderIndex = 0, createdAt = 1, updatedAt = 1, card_id = ''a''\<rparr>,
      \<lparr>deckId = ''d'', title = ''B'', body = [], orderIndex = 1, createdAt = 2, updatedAt = 2, card_id = ''b''\<rparr>]
     \<lparr>cards = [], decks = []\<rparr>) = Inl (PersistenceError ''unavailable'')"
proof -
  let ?cs = "[\<lparr>deckId = ''d'', title = ''A'', body = [], orderIndex = 0, createdAt = 1, updatedAt = 1, card_id = ''a''\<rparr>,
      \<lparr>deckId = ''d'', title = ''B'', body = [], orderIndex = 1, createdAt = 2, updatedAt = 2, card_id = ''b''\<rparr>]"
  let ?d = "\<lparr>cards = [], decks = []\<rparr>"
  let ?ok = "\<lparr>fault = None, serverTime = 9\<rparr>"
  let ?ko = "\<lparr>fault = Some ''unavailable'', serverTime = 9\<rparr>"
  have 1: "result (moveCardUp None ''d'' ?ok ''b'' ?cs ?d) = Inl Unauthenticated"
    using move_operations_failures [where user = None and dId = "''d''" and r = ?ok
        and cardId = "''b''" and cs = ?cs and d = ?d]
    by simp
  have 2: "result (moveCardUp (Some ''u'') ''d'' ?ok ''a'' ?cs ?d) = Inl (InvalidMove Up)"
    using move_operations_failures [where user = "Some ''u''" and dId = "''d''" and r = ?ok
        and cardId = "''a''" and cs = ?cs and d = ?d]
    by simp
  have 3: "result (moveCardDown (Some ''u'') ''d'' ?ok ''b'' ?cs ?d) = Inl (InvalidMove Down)"
    using move_operations_failures [where user = "Some ''u''" and dId = "''d''" and r = ?ok
        and cardId = "''b''" and cs = ?cs and d = ?d]
    by simp
  have up: "moveCardUp_order ''b'' ?cs = Inr [''b'', ''a'']"
    by (simp add: moveCardUp_order_def)
  have down: "moveCardDown_order ''a'' ?cs = Inr [''b'', ''a'']"
    by (simp add: moveCardDown_order_def)
  have ko: "result (reorderCards (Some ''u'') ''d'' ?ko [''b'', ''a''] ?d)
              = Inl (PersistenceError ''unavailable'')"
    by (simp add: reorderCards_def commit_def caught_def)
  have 4: "result (moveCardUp (Some ''u'') ''d'' ?ko ''b'' ?cs ?d) = Inl (PersistenceError ''unavailable'')"
    using up ko move_operations_failures [where user = "Some ''u''" and dId = "''d''" and r = ?ko
        and cardId = "''b''" and cs = ?cs and d = ?d]
    by blast
  have 5: "result (moveCardDown (Some ''u'') ''d'' ?ko ''a'' ?cs ?d) = Inl (PersistenceError ''unavailable'')"
    using down ko move_operations_failures [where user = "Some ''u''" and dId = "''d''" and r = ?ko
        and cardId = "''a''" and cs = ?cs and d = ?d]
    by blast
  from 1 2 3 4 5 show ?thesis by blast
qed

text \<open>
  The claim as stated, for an unauthenticated caller: the first card cannot move up and an
  absent card cannot move down, and both operations fail with \<open>Unauthenticated\<close>, not
  with \<open>InvalidMove\<close>.
\<close>

theorem move_unauthenticated_counterexample:
  "moveCardUp_order ''a''
     [\<lparr>deckId = ''d'', title = ''A'', body = [], orderIndex = 0, createdAt = 1, updatedAt = 1, card_id = ''a''\<rparr>,
      \<lparr>deckId = ''d'', title = ''B'', body = [], orderIndex = 1, createdAt = 2, updatedAt = 2, card_id = ''b''\<rparr>]
     = Inl (InvalidMove Up)
   \<and> result (moveCardUp None ''d'' \<lparr>fault = None, serverTime = 9\<rparr> ''a''
     [\<lparr>deckId = ''d'', title = ''A'', body = [], orderIndex = 0, createdAt = 1, updatedAt = 1, card_id = ''a''\<rparr>,
      \<lparr>deckId = ''d'', title = ''B'', body = [], orderIndex = 1, createdAt = 2, updatedAt = 2, card_id = ''b''\<rparr>]
     \<lparr>cards = [], decks = []\<rparr>) = Inl Unauthenticated
   \<and> result (moveCardUp None ''d'' \<lparr>fault = None, serverTime = 9\<rparr> ''a''
     [\<lparr>deckId = ''d'', title = ''A'', body = [], orderIndex = 0, createdAt = 1, updatedAt = 1, card_id = ''a''\<rparr>,
      \<lparr>deckId = ''d'', title = ''B'', body = [], orderIndex = 1, createdAt = 2, updatedAt = 2, card_id = ''b''\<rparr>]
     \<lparr>cards = [], decks = []\<rparr>) \<noteq> Inl (InvalidMove Up)
   \<and> result (moveCardDown None ''d'' \<lparr>fault = None, serverTime = 9\<rparr> ''zz''
     [\<lparr>deckId = ''d'', title = ''A'', body = [], orderIndex = 0, createdAt = 1, updatedAt = 1, card_id = ''a''\<rparr>,
      \<lparr>deckId = ''d'', title = ''B'', body = [], orderIndex = 1, createdAt = 2, updatedAt = 2, card_id = ''b''\<rparr>]
     \<lparr>cards = [], decks = []\<rparr>) \<noteq> Inl (InvalidMove Down)"
  by (simp add: moveCardUp_def moveCardDown_def moveCardUp_order_def thrown_def)

subsection \<open>The busy flag\<close>




subsection \<open>What a card edit leaves alone\<close>

text \<open>
  Claim C10, as amended. Whatever the payload and however the two storage calls end,
  \<^verbatim>\<open>updateCard\<close> keeps the ids of the stored documents and every field of every card
  other than the one edited. Of the card edited it keeps \<^verbatim>\<open>orderIndex\<close>, \<^verbatim>\<open>deckId\<close>,
  \<^verbatim>\<open>createdAt\<close> and a data field \<^verbatim>\<open>id\<close>, each for every payload that does not carry the
  key: so for every payload with the keys \<^verbatim>\<open>title\<close>, \<^verbatim>\<open>body\<close>, \<^verbatim>\<open>updatedAt\<close> only, which
  are the keys its declared type names, the \<^verbatim>\<open>orderIndex\<close> of every card is as before.
\<close>

theorem updateCard_frame:
  "map fst (cards (stored (updateCard user dId r1 r2 cardId updates d))) = map fst (cards d)
   \<and> (k \<noteq> cardId \<longrightarrow>
        map_of (cards (stored (updateCard user dId r1 r2 cardId updates d))) k = map_of (cards d) k)
   \<and> (edit_orderIndex updates = None \<longrightarrow>
        orderIndexOf (stored (updateCard user dId r1 r2 cardId updates d)) k = orderIndexOf d k)
   \<and> (edit_deckId updates = None \<longrightarrow>
        map_option deckId (map_of (cards (stored (updateCard user dId r1 r2 cardId updates d))) k) =
        map_option deckId (map_of (cards d) k))
   \<and> (edit_createdAt updates = None \<longrightarrow>
        map_option createdAt (map_of (cards (stored (updateCard user dId r1 r2 cardId updates d))) k) =
        map_option createdAt (map_of (cards d) k))
   \<and> (edit_id updates = None \<longrightarrow>
        map_option data_id (map_of (cards (stored (updateCard user dId r1 r2 cardId updates d))) k) =
        map_option data_id (map_of (cards d) k))"
  using updateCard_cards [of user dId r1 r2 cardId updates d]
  by (auto simp: orderIndexOf_def keys_modifyDoc map_of_modifyDoc applyCardPatch_def
      updateData_def option.map_comp o_def)

theorem updateCard_frame_witness:
  "result (updateCard (Some ''u'') ''d'' \<lparr>fault = None, serverTime = 9\<rparr> \<lparr>fault = None, serverTime = 10\<rparr> ''a''
        \<lparr>edit_id = None, edit_deckId = None, edit_title = Some ''T'', edit_body = Some ''text'',
         edit_orderIndex = None, edit_createdAt = None, edit_updatedAt = Some 3\<rparr>
        \<lparr>cards = [(''a'', \<lparr>deckId = ''d'', title = ''A'', body = [], orderIndex = 4, createdAt = 1, updatedAt = 1, data_id = None\<rparr>),
                  (''b'', \<lparr>deckId = ''d'', title = ''B'', body = [], orderIndex = 6, createdAt = 2, updatedAt = 2, data_id = None\<rparr>)],
         decks = [(''d'', \<lparr>deck_title = ''D'', deck_ownerId = ''u'', deck_createdAt = 0, deck_updatedAt = 2,
                        deck_cardCount = Some 2\<rparr>)]\<rparr>) = Inr ()
   \<and> map_of (cards (stored (updateCard (Some ''u'') ''d'' \<lparr>fault = None, serverTime = 9\<rparr> \<lparr>fault = None, serverTime = 10\<rparr> ''a''
        \<lparr>edit_id = None, edit_deckId = None, edit_title = Some ''T'', edit_body = Some ''text'',
         edit_orderIndex = None, edit_createdAt = None, edit_updatedAt = Some 3\<rparr>
        \<lparr>cards = [(''a'', \<lparr>deckId = ''d'', title = ''A'', body = [], orderIndex = 4, createdAt = 1, updatedAt = 1, data_id = None\<rparr>),
                  (''b'', \<lparr>deckId = ''d'', title = ''B'', body = [], orderIndex = 6, createdAt = 2, updatedAt = 2, data_id = None\<rparr>)],
         decks = [(''d'', \<lparr>deck_title = ''D'', deck_ownerId = ''u'', deck_createdAt = 0, deck_updatedAt = 2,
                        deck_cardCount = Some 2\<rparr>)]\<rparr>))) ''a''
       = Some \<lparr>deckId = ''d'', title = ''T'', body = ''text'', orderIndex = 4, createdAt = 1, updatedAt = 9, data_id = None\<rparr>
   \<and> orderIndexOf (stored (updateCard (Some ''u'') ''d'' \<lparr>fault = None, serverTime = 9\<rparr> \<lparr>fault = None, serverTime = 10\<rparr> ''a''
        \<lparr>edit_id = None, edit_deckId = None, edit_title = Some ''T'', edit_body = Some ''text'',
         edit_orderIndex = None, edit_createdAt = None, edit_updatedAt = Some 3\<rparr>
        \<lparr>cards = [(''a'', \<lparr>deckId = ''d'', title = ''A'', body = [], orderIndex = 4, createdAt = 1, updatedAt = 1, data_id = None\<rparr>),
                  (''b'', \<lparr>deckId = ''d'', title = ''B'', body = [], orderIndex = 6, createdAt = 2, updatedAt = 2, data_id = None\<rparr>)],
         decks = [(''d'', \<lparr>deck_title = ''D'', deck_ownerId = ''u'', deck_createdAt = 0, deck_updatedAt = 2,
                        deck_cardCount = Some 2\<rparr>)]\<rparr>)) ''a'' = Some 4
   \<and> map_of (cards (stored (updateCard (Some ''u'') ''d'' \<lparr>fault = None, serverTime = 9\<rparr> \<lparr>fault = None, serverTime = 10\<rparr> ''a''
        \<lparr>edit_id = None, edit_deckId = None, edit_title = Some ''T'', edit_body = Some ''text'',
         edit_orderIndex = None, edit_createdAt = None, edit_updatedAt = Some 3\<rparr>
        \<lparr>cards = [(''a'', \<lparr>deckId = ''d'', title = ''A'', body = [], orderIndex = 4, createdAt = 1, updatedAt = 1, data_id = None\<rparr>),
                  (''b'', \<lparr>deckId = ''d'', title = ''B'', body = [], orderIndex = 6, createdAt = 2, updatedAt = 2, data_id = None\<rparr>)],
         decks = [(''d'', \<lparr>deck_title = ''D'', deck_ownerId = ''u'', deck_createdAt = 0, deck_updatedAt = 2,
                        deck_cardCount = Some 2\<rparr>)]\<rparr>))) ''b''
       = Some \<lparr>deckId = ''d'', title = ''B'', body = [], orderIndex = 6, createdAt = 2, updatedAt = 2, data_id = None\<rparr>"
proof -
  let ?d = "\<lparr>cards = [(''a'', \<lparr>deckId = ''d'', title = ''A'', body = [], orderIndex = 4, createdAt = 1, updatedAt = 1, data_id = None\<rparr>),
                  (''b'', \<lparr>deckId = ''d'', title = ''B'', body = [], orderIndex = 6, createdAt = 2, updatedAt = 2, data_id = None\<rparr>)],
         decks = [(''d'', \<lparr>deck_title = ''D'', deck_ownerId = ''u'', deck_createdAt = 0, deck_updatedAt = 2,
                        deck_cardCount = Some 2\<rparr>)]\<rparr>"
  let ?upd = "\<lparr>edit_id = None, edit_deckId = None, edit_title = Some ''T'', edit_body = Some ''text'',
         edit_orderIndex = None, edit_createdAt = None, edit_updatedAt = Some 3\<rparr>"
  let ?r9 = "\<lparr>fault = None, serverTime = 9\<rparr>"
  let ?r10 = "\<lparr>fault = None, serverTime = 10\<rparr>"
  let ?out = "updateCard (Some ''u'') ''d'' ?r9 ?r10 ''a'' ?upd ?d"
  have ok: "result ?out = Inr ()"
    and a: "map_of (cards (stored ?out)) ''a''
       = Some \<lparr>deckId = ''d'', title = ''T'', body = ''text'', orderIndex = 4, createdAt = 1, updatedAt = 9, data_id = None\<rparr>"
    by (simp_all add: updateCard_def updateDoc_def updateData_def trim_def isWhiteSpace_def run_defs)
  note fa = updateCard_frame [where user = "Some ''u''" and dId = "''d''" and ?r1.0 = ?r9 and ?r2.0 = ?r10
      and cardId = "''a''" and updates = ?upd and d = ?d and k = "''a''"]
  note fb = updateCard_frame [where user = "Some ''u''" and dId = "''d''" and ?r1.0 = ?r9 and ?r2.0 = ?r10
      and cardId = "''a''" and updates = ?upd and d = ?d and k = "''b''"]
  have none: "edit_orderIndex ?upd = None" and other: "''b'' \<noteq> ''a''" by simp_all
  from fa none have "orderIndexOf (stored ?out) ''a'' = orderIndexOf ?d ''a''" by blast
  moreover have "orderIndexOf ?d ''a'' = Some 4" by (simp add: orderIndexOf_def)
  ultimately have ia: "orderIndexOf (stored ?out) ''a'' = Some 4" by (simp only:)
  from fb other have "map_of (cards (stored ?out)) ''b'' = map_of (cards ?d) ''b''" by blast
  moreover have "map_of (cards ?d) ''b''
       = Some \<lparr>deckId = ''d'', title = ''B'', body = [], orderIndex = 6, createdAt = 2, updatedAt = 2, data_id = None\<rparr>"
    by simp
  ultimately have b: "map_of (cards (stored ?out)) ''b''
       = Some \<lparr>deckId = ''d'', title = ''B'', body = [], orderIndex = 6, createdAt = 2, updatedAt = 2, data_id = None\<rparr>"
    by (simp only:)
  from ok a ia b show ?thesis by blast
qed

text \<open>
  The claim as stated, for every call: the declared type is checked when the program is
  compiled and is not there when it runs. A payload with all the keys of a card (a
  variable of type \<^verbatim>\<open>Card\<close> is accepted where the declared type is expected) is spread
  into the update: the card edited gets the \<^verbatim>\<open>orderIndex\<close>, \<^verbatim>\<open>deckId\<close> and
  \<^verbatim>\<open>createdAt\<close> of the payload, and a data field \<^verbatim>\<open>id\<close>.
\<close>

theorem updateCard_card_shaped_counterexample:
  "result (updateCard (Some ''u'') ''d'' \<lparr>fault = None, serverTime = 9\<rparr> \<lparr>fault = None, serverTime = 10\<rparr> ''a''
        \<lparr>edit_id = Some ''b'', edit_deckId = Some ''e'', edit_title = Some ''B'', edit_body = Some [],
         edit_orderIndex = Some 6, edit_createdAt = Some 2, edit_updatedAt = Some 2\<rparr>
        \<lparr>cards = [(''a'', \<lparr>deckId = ''d'', title = ''A'', body = [], orderIndex = 4, createdAt = 1, updatedAt = 1, data_id = None\<rparr>)],
         decks = [(''d'', \<lparr>deck_title = ''D'', deck_ownerId = ''u'', deck_createdAt = 0, deck_updatedAt = 2,
                        deck_cardCount = Some 1\<rparr>)]\<rparr>) = Inr ()
   \<and> orderIndexOf
        \<lparr>cards = [(''a'', \<lparr>deckId = ''d'', title = ''A'', body = [], orderIndex = 4, createdAt = 1, updatedAt = 1, data_id = None\<rparr>)],
         decks = [(''d'', \<lparr>deck_title = ''D'', deck_ownerId = ''u'', deck_createdAt = 0, deck_updatedAt = 2,
                        deck_cardCount = Some 1\<rparr>)]\<rparr> ''a'' = Some 4
   \<and> map_of (cards (stored (updateCard (Some ''u'') ''d'' \<lparr>fault = None, serverTime = 9\<rparr> \<lparr>fault = None, serverTime = 10\<rparr> ''a''
        \<lparr>edit_id = Some ''b'', edit_deckId = Some ''e'', edit_title = Some ''B'', edit_body = Some [],
         edit_orderIndex = Some 6, edit_createdAt = Some 2, edit_updatedAt = Some 2\<rparr>
        \<lparr>cards = [(''a'', \<lparr>deckId = ''d'', title = ''A'', body = [], orderIndex = 4, createdAt = 1, updatedAt = 1, data_id = None\<rparr>)],
         decks = [(''d'', \<lparr>deck_title = ''D'', deck_ownerId = ''u'', deck_createdAt = 0, deck_updatedAt = 2,
                        deck_cardCount = Some 1\<rparr>)]\<rparr>))) ''a''
       = Some \<lparr>deckId = ''e'', title = ''B'', body = [], orderIndex = 6, createdAt = 2, updatedAt = 9, data_id = Some ''b''\<rparr>
   \<and> orderIndexOf (stored (updateCard (Some ''u'') ''d'' \<lparr>fault = None, serverTime = 9\<rparr> \<lparr>fault = None, serverTime = 10\<rparr> ''a''
        \<lparr>edit_id = Some ''b'', edit_deckId = Some ''e'', edit_title = Some ''B'', edit_body = Some [],
         edit_orderIndex = Some 6, edit_createdAt = Some 2, edit_updatedAt = Some 2\<rparr>
        \<lparr>cards = [(''a'', \<lparr>deckId = ''d'', title = ''A'', body = [], orderIndex = 4, createdAt = 1, updatedAt = 1, data_id = None\<rparr>)],
         decks = [(''d'', \<lparr>deck_title = ''D'', deck_ownerId = ''u'', deck_createdAt = 0, deck_updatedAt = 2,
                        deck_cardCount = Some 1\<rparr>)]\<rparr>)) ''a'' \<noteq> Some 4"
  by (simp add: updateCard_def updateDoc_def updateData_def trim_def isWhiteSpace_def run_defs)

end
